theory Spec2Isabelle
  imports Main "HOL-Library.AList" "HOL-Library.Sublist"
begin

section \<open>Values of the response tree\<close>

text \<open>
  The executor of \<^verbatim>\<open>gateway-js/src/executeQueryPlan.ts\<close> works on dynamically typed
  JavaScript values (\<^verbatim>\<open>ResultMap = Record<string, any>\<close>). They are modelled by one
  datatype. An object is an association list, so that a key that is present and holds
  \<^verbatim>\<open>undefined\<close> differs from a key that is absent (the operator \<^verbatim>\<open>in\<close> tells them
  apart, a property read does not). Numbers are integers: no claim depends on fractions.
  Property names inherited from a prototype (\<^verbatim>\<open>length\<close>, \<^verbatim>\<open>toString\<close>, ...) are
  not modelled: reading a property of a scalar or of an array gives \<^verbatim>\<open>undefined\<close>.
\<close>

datatype jsval =
    JUndefined
  | JNull
  | JBool bool
  | JNum int
  | JStr string
  | JArr "jsval list"
  | JObj "(string \<times> jsval) list"

text \<open>
  \<^verbatim>\<open>ResponsePath\<close>: field names and array indices; in the path of a plan the name
  \<^verbatim>\<open>@\<close> stands for every element of an array.
\<close>

datatype pathElem = PStr string | PNum int

type_synonym ResponsePath = "pathElem list"

text \<open>
  What the source throws: every exception is a value of the model. \<open>AssertionError\<close> is
  what a failed \<^verbatim>\<open>assert\<close> of \<^verbatim>\<open>@apollo/federation-internals\<close> throws, \<open>Thrown\<close> a
  value that is not an \<^verbatim>\<open>Error\<close>. The messages are those of the source, written without
  their quotation marks and backquotes.
\<close>

record GraphQLError =
  message :: string
  err_path :: "ResponsePath option"
  extensions :: "(string \<times> jsval) list"

datatype error =
    Error string
  | TypeError string
  | AssertionError string
  | GraphQLErr GraphQLError
  | Thrown jsval

type_synonym 'a result = "error + 'a"

definition isArray :: "jsval \<Rightarrow> bool" where
  "isArray v = (case v of JArr _ \<Rightarrow> True | _ \<Rightarrow> False)"

text \<open>The elements of an array (\<^verbatim>\<open>Array.prototype.entries\<close>, \<^verbatim>\<open>map\<close>, \<^verbatim>\<open>filter\<close> run over them).\<close>

definition arrayElems :: "jsval \<Rightarrow> jsval list" where
  "arrayElems v = (case v of JArr vs \<Rightarrow> vs | _ \<Rightarrow> [])"

text \<open>JavaScript truthiness, as used by \<^verbatim>\<open>if (x)\<close>, \<^verbatim>\<open>x && y\<close> and \<^verbatim>\<open>!x\<close>.\<close>

fun truthy :: "jsval \<Rightarrow> bool" where
  "truthy JUndefined = False"
| "truthy JNull = False"
| "truthy (JBool b) = b"
| "truthy (JNum n) = (n \<noteq> 0)"
| "truthy (JStr s) = (s \<noteq> [])"
| "truthy (JArr _) = True"
| "truthy (JObj _) = True"

text \<open>
  Modelled from the spec: \<^verbatim>\<open>isNotNullOrUndefined\<close> of \<^verbatim>\<open>utilities/array\<close> and
  \<^verbatim>\<open>isDefined\<close> of \<^verbatim>\<open>@apollo/federation-internals\<close> are not part of the sources. The
  first is what the specification filters the entities of a cursor with (null or
  undefined are left out); the second holds of every value but \<^verbatim>\<open>undefined\<close>.
\<close>

definition isNotNullOrUndefined :: "jsval \<Rightarrow> bool" where
  "isNotNullOrUndefined v = (v \<noteq> JNull \<and> v \<noteq> JUndefined)"

definition isDefined :: "jsval \<Rightarrow> bool" where
  "isDefined v = (v \<noteq> JUndefined)"

text \<open>The value of \<^verbatim>\<open>o[k]\<close> for an object given by its entries.\<close>

definition getKey :: "(string \<times> jsval) list \<Rightarrow> string \<Rightarrow> jsval" where
  "getKey kvs k = (case map_of kvs k of None \<Rightarrow> JUndefined | Some v \<Rightarrow> v)"

text \<open>
  The property read \<^verbatim>\<open>v[k]\<close>: a \<^verbatim>\<open>TypeError\<close> on \<^verbatim>\<open>undefined\<close> and \<^verbatim>\<open>null\<close>,
  the stored value on an object, \<^verbatim>\<open>undefined\<close> everywhere else.
\<close>

fun getProp :: "jsval \<Rightarrow> string \<Rightarrow> jsval result" where
  "getProp JUndefined k = Inl (TypeError (''Cannot read properties of undefined (reading '' @ k @ '')''))"
| "getProp JNull k = Inl (TypeError (''Cannot read properties of null (reading '' @ k @ '')''))"
| "getProp (JObj kvs) k = Inr (getKey kvs k)"
| "getProp _ k = Inr JUndefined"

text \<open>The assignment \<^verbatim>\<open>o[k] = v\<close> on an object; the new object is returned.\<close>

fun setProp :: "jsval \<Rightarrow> string \<Rightarrow> jsval \<Rightarrow> jsval" where
  "setProp (JObj kvs) k v = JObj (AList.update k v kvs)"
| "setProp w k v = w"

text \<open>\<^verbatim>\<open>k in o\<close>.\<close>

fun hasKey :: "jsval \<Rightarrow> string \<Rightarrow> bool" where
  "hasKey (JObj kvs) k = (k \<in> fst ` set kvs)"
| "hasKey _ k = False"

definition TypeNameMetaFieldDef_name :: string where
  "TypeNameMetaFieldDef_name = ''__typename''"

section \<open>Deep merge\<close>

text \<open>
  Modelled from the spec: \<^verbatim>\<open>deepMerge\<close> of \<^verbatim>\<open>utilities/deepMerge\<close> is not part of
  the sources. The specification gives its rules: for mappings, combine keys recursively;
  for arrays of equal length, combine element-wise by index; for scalars the later value
  wins; null replaces undefined but does not overwrite non-null. A source that is
  \<^verbatim>\<open>undefined\<close> (also as the value of a key) contributes nothing. The source code merges
  into its first argument in place; the model returns the merged value.
\<close>

fun deepMerge :: "jsval \<Rightarrow> jsval \<Rightarrow> jsval"
  and mergeKeys :: "(string \<times> jsval) list \<Rightarrow> (string \<times> jsval) list \<Rightarrow> (string \<times> jsval) list"
  and mergeElems :: "jsval list \<Rightarrow> jsval list \<Rightarrow> jsval list" where
  "deepMerge t JUndefined = t"
| "deepMerge t JNull = (if t = JUndefined then JNull else t)"
| "deepMerge t (JObj s) = (case t of JObj kvs \<Rightarrow> JObj (mergeKeys kvs s) | _ \<Rightarrow> JObj s)"
| "deepMerge t (JArr s) =
     (case t of
        JArr ts \<Rightarrow> if length ts = length s then JArr (mergeElems ts s) else JArr s
      | _ \<Rightarrow> JArr s)"
| "deepMerge t (JBool b) = JBool b"
| "deepMerge t (JNum n) = JNum n"
| "deepMerge t (JStr x) = JStr x"
| "mergeKeys kvs [] = kvs"
| "mergeKeys kvs ((k, v) # s) =
     (if v = JUndefined then mergeKeys kvs s
      else mergeKeys (AList.update k (deepMerge (getKey kvs k) v) kvs) s)"
| "mergeElems ts [] = []"
| "mergeElems [] (s # ss) = []"
| "mergeElems (t # ts) (s # ss) = deepMerge t s # mergeElems ts ss"

section \<open>Entity representations: the selection-set walker\<close>

text \<open>
  \<^verbatim>\<open>QueryPlanSelectionNode\<close>: a field with an optional alias and optional
  sub-selections, or an inline fragment with an optional type condition.
\<close>

datatype selection =
    Field "string option" string "selection list option"
  | InlineFragment "string option" "selection list"

text \<open>
  Modelled from the spec: \<^verbatim>\<open>getResponseName\<close> of \<^verbatim>\<open>@apollo/query-planner\<close> is not
  part of the sources. The response-name of a field is its alias when it has one and its
  name otherwise.
\<close>

definition getResponseName :: "string option \<Rightarrow> string \<Rightarrow> string" where
  "getResponseName alias name = (case alias of Some a \<Rightarrow> a | None \<Rightarrow> name)"

text \<open>\<^verbatim>\<open>FetchDataInputRewrite\<close> and \<^verbatim>\<open>FetchDataOutputRewrite\<close>.\<close>

record FetchDataInputRewrite =
  in_path :: "string list"
  setValueTo :: jsval

record FetchDataOutputRewrite =
  out_path :: "string list"
  renameKeyTo :: string

text \<open>
  The part of \<^verbatim>\<open>GraphQLSchema\<close> that \<^verbatim>\<open>doesTypeConditionMatch\<close> reads: the named
  types with their kind (\<^verbatim>\<open>getType\<close>) and the pairs (abstract type, sub type) of
  \<^verbatim>\<open>isSubType\<close>.
\<close>

datatype typeKind = ScalarType | ObjectType | InterfaceType | UnionType | EnumType | InputObjectType

record GraphQLSchema =
  getType :: "(string \<times> typeKind) list"
  subTypes :: "(string \<times> string) list"

definition isAbstractType :: "typeKind \<Rightarrow> bool" where
  "isAbstractType k = (k = InterfaceType \<or> k = UnionType)"

definition doesTypeConditionMatch :: "GraphQLSchema \<Rightarrow> string \<Rightarrow> jsval \<Rightarrow> bool" where
  "doesTypeConditionMatch schema typeCondition typename =
     (case typename of
        JStr tn \<Rightarrow>
          if typeCondition = tn then True
          else (case map_of (getType schema) tn of
                  None \<Rightarrow> False
                | Some ty \<Rightarrow>
                   (case map_of (getType schema) typeCondition of
                      None \<Rightarrow> False
                    | Some conditionalType \<Rightarrow>
                        if isAbstractType conditionalType
                        then (ty = ObjectType \<or> ty = InterfaceType)
                             \<and> (typeCondition, tn) \<in> set (subTypes schema)
                        else False))
      | _ \<Rightarrow> False)"

text \<open>
  \<^verbatim>\<open>updateRewrites\<close>: the rewrites that go on past \<open>pathElement\<close>, and the value of the
  last rewrite that ends exactly there (\<^verbatim>\<open>undefined\<close> when there is none). The result
  is \<^verbatim>\<open>undefined\<close> (\<open>None\<close>) when there are no rewrites or nothing is left.
\<close>

fun updateRewritesLoop ::
  "FetchDataInputRewrite list \<Rightarrow> string \<Rightarrow> jsval \<Rightarrow> FetchDataInputRewrite list \<times> jsval" where
  "updateRewritesLoop [] pathElement completeRewrite = ([], completeRewrite)"
| "updateRewritesLoop (r # rs) pathElement completeRewrite =
     (case in_path r of
        p0 # updatedPath \<Rightarrow>
          if p0 = pathElement then
            (if updatedPath = [] then updateRewritesLoop rs pathElement (setValueTo r)
             else (let (us, c) = updateRewritesLoop rs pathElement completeRewrite
                   in (r\<lparr>in_path := updatedPath\<rparr> # us, c)))
          else updateRewritesLoop rs pathElement completeRewrite
      | [] \<Rightarrow> updateRewritesLoop rs pathElement completeRewrite)"

definition updateRewrites ::
  "FetchDataInputRewrite list option \<Rightarrow> string \<Rightarrow> (FetchDataInputRewrite list \<times> jsval) option" where
  "updateRewrites rewrites pathElement =
     (case rewrites of
        None \<Rightarrow> None
      | Some rs \<Rightarrow>
          (let (updated, completeRewrite) = updateRewritesLoop rs pathElement JUndefined
           in if updated = [] \<and> completeRewrite = JUndefined then None
              else Some (updated, completeRewrite)))"

text \<open>\<^verbatim>\<open>updatedRewrites?.completeRewrite\<close> and \<^verbatim>\<open>updatedRewrites?.updated\<close>.\<close>

definition completeRewriteOf :: "(FetchDataInputRewrite list \<times> jsval) option \<Rightarrow> jsval" where
  "completeRewriteOf u = (case u of None \<Rightarrow> JUndefined | Some (_, c) \<Rightarrow> c)"

definition updatedOf ::
  "(FetchDataInputRewrite list \<times> jsval) option \<Rightarrow> FetchDataInputRewrite list option" where
  "updatedOf u = map_option fst u"

text \<open>Collecting the results of a \<^verbatim>\<open>map\<close> whose callback may throw: the first throw wins.\<close>

fun collect :: "'a result list \<Rightarrow> 'a list result" where
  "collect [] = Inr []"
| "collect (Inl e # rs) = Inl e"
| "collect (Inr x # rs) = (case collect rs of Inl e \<Rightarrow> Inl e | Inr xs \<Rightarrow> Inr (x # xs))"

text \<open>
  \<^verbatim>\<open>executeSelectionSet\<close>. \<open>selectionLoop\<close> is its \<^verbatim>\<open>for (const selection of selections)\<close>
  loop, with the object \<^verbatim>\<open>result\<close> built so far; \<^verbatim>\<open>return null\<close> leaves the loop at
  once, \<^verbatim>\<open>continue\<close> and \<^verbatim>\<open>break\<close> go on with the next selection.
\<close>

fun executeSelectionSet ::
    "GraphQLSchema \<Rightarrow> jsval \<Rightarrow> selection list \<Rightarrow> FetchDataInputRewrite list option \<Rightarrow> jsval result"
  and selectionLoop ::
    "GraphQLSchema \<Rightarrow> jsval \<Rightarrow> selection list \<Rightarrow> FetchDataInputRewrite list option \<Rightarrow> jsval
       \<Rightarrow> jsval result" where
  "executeSelectionSet schema source sels activeRewrites =
     (if source = JNull then Inr JNull
      else selectionLoop schema source sels activeRewrites (JObj []))"
| "selectionLoop schema source [] activeRewrites result = Inr result"
| "selectionLoop schema source (Field alias name subs # rest) activeRewrites result =
     (let responseName = getResponseName alias name in
      case getProp source responseName of
        Inl e \<Rightarrow> Inl e
      | Inr v \<Rightarrow>
          if v = JUndefined then Inr JNull
          else
            let updatedRewrites = updateRewrites activeRewrites responseName in
            if completeRewriteOf updatedRewrites \<noteq> JUndefined then
              selectionLoop schema source rest activeRewrites
                (setProp result responseName (completeRewriteOf updatedRewrites))
            else if isArray v then
              (case collect (map (\<lambda>value.
                        case subs of
                          Some selections \<Rightarrow>
                            executeSelectionSet schema value selections (updatedOf updatedRewrites)
                        | None \<Rightarrow> Inr value) (arrayElems v)) of
                 Inl e \<Rightarrow> Inl e
               | Inr rs \<Rightarrow>
                   selectionLoop schema source rest activeRewrites
                     (setProp result responseName (JArr rs)))
            else
              (case subs of
                 Some selections \<Rightarrow>
                   (case executeSelectionSet schema v selections (updatedOf updatedRewrites) of
                      Inl e \<Rightarrow> Inl e
                    | Inr r \<Rightarrow>
                        selectionLoop schema source rest activeRewrites
                          (setProp result responseName r))
               | None \<Rightarrow>
                   selectionLoop schema source rest activeRewrites
                     (setProp result responseName v)))"
| "selectionLoop schema source (InlineFragment typeCondition fsels # rest) activeRewrites result =
     (case typeCondition of
        None \<Rightarrow> selectionLoop schema source rest activeRewrites result
      | Some tc \<Rightarrow>
          (case (if truthy source then getProp source ''__typename'' else Inr source) of
             Inl e \<Rightarrow> Inl e
           | Inr typename \<Rightarrow>
               if \<not> truthy typename then selectionLoop schema source rest activeRewrites result
               else if doesTypeConditionMatch schema tc typename then
                 (let updatedRewrites =
                        (if activeRewrites \<noteq> None
                         then updateRewrites activeRewrites (''... on '' @ tc) else None)
                  in case executeSelectionSet schema source fsels (updatedOf updatedRewrites) of
                       Inl e \<Rightarrow> Inl e
                     | Inr r \<Rightarrow>
                         selectionLoop schema source rest activeRewrites (deepMerge result r))
               else selectionLoop schema source rest activeRewrites result))"


section \<open>Locations in a result and mutation in place\<close>

text \<open>
  The source mutates the objects of a result through references. A result is a tree, so
  a reference to one of its nodes is modelled by the location of the node: the keys and
  array indices that lead to it from the root. \<open>lookup\<close> reads the node at a location
  (\<^verbatim>\<open>undefined\<close> when there is none) and \<open>modify\<close> replaces it, which is what a
  mutation through the reference does to the tree. This is the source's behaviour as long
  as no object can be reached along two paths of the tree and no node that a cursor refers
  to has been replaced as a whole since the cursor was made.
\<close>

datatype step = Key string | Idx nat

type_synonym loc = "step list"

fun lookup :: "jsval \<Rightarrow> loc \<Rightarrow> jsval" where
  "lookup v [] = v"
| "lookup (JObj kvs) (Key k # l) = lookup (getKey kvs k) l"
| "lookup (JArr vs) (Idx i # l) = (if i < length vs then lookup (vs ! i) l else JUndefined)"
| "lookup v (st # l) = JUndefined"

fun modify :: "(jsval \<Rightarrow> jsval) \<Rightarrow> loc \<Rightarrow> jsval \<Rightarrow> jsval" where
  "modify f [] v = f v"
| "modify f (Key k # l) (JObj kvs) =
     (if k \<in> fst ` set kvs then JObj (AList.update k (modify f l (getKey kvs k)) kvs)
      else JObj kvs)"
| "modify f (Idx i # l) (JArr vs) =
     (if i < length vs then JArr (vs[i := modify f l (vs ! i)]) else JArr vs)"
| "modify f (st # l) v = v"

text \<open>
  What a variable of the source holds while it walks a result: a reference to a node that
  is not an array (its location, and the value found there), or an array of such. Both the
  arrays of the result and the fresh arrays built by \<^verbatim>\<open>map\<close> and \<^verbatim>\<open>filter\<close> are
  \<open>VArr\<close>: the source treats them alike (\<^verbatim>\<open>Array.isArray\<close>).
\<close>

datatype view = VNode loc jsval | VArr "view list"

definition VUndefined :: view where
  "VUndefined = VNode [] JUndefined"

fun viewOf :: "loc \<Rightarrow> jsval \<Rightarrow> view"
  and viewsOf :: "loc \<Rightarrow> nat \<Rightarrow> jsval list \<Rightarrow> view list" where
  "viewOf l (JArr vs) = VArr (viewsOf l 0 vs)"
| "viewOf l JUndefined = VNode l JUndefined"
| "viewOf l JNull = VNode l JNull"
| "viewOf l (JBool b) = VNode l (JBool b)"
| "viewOf l (JNum n) = VNode l (JNum n)"
| "viewOf l (JStr x) = VNode l (JStr x)"
| "viewOf l (JObj kvs) = VNode l (JObj kvs)"
| "viewsOf l i [] = []"
| "viewsOf l i (v # vs) = viewOf (l @ [Idx i]) v # viewsOf l (Suc i) vs"

fun isDefinedView :: "view \<Rightarrow> bool" where
  "isDefinedView (VNode l v) = isDefined v"
| "isDefinedView (VArr vs) = True"

fun truthyView :: "view \<Rightarrow> bool" where
  "truthyView (VNode l v) = truthy v"
| "truthyView (VArr vs) = True"

section \<open>Output rewrites\<close>

text \<open>
  \<^verbatim>\<open>applyOrMapRecursive\<close>. The callback \<open>fct\<close> gets a node that is not an array and
  may throw; the callback of the last step of \<^verbatim>\<open>withFetchRewrites\<close> mutates the
  result, so the result \<open>s\<close> is passed along. \<open>mapElems\<close> is \<^verbatim>\<open>value.map\<close>, element
  after element.
\<close>

fun applyOrMapRecursive ::
    "view \<Rightarrow> (loc \<Rightarrow> jsval \<Rightarrow> 's \<Rightarrow> (view \<times> 's) result) \<Rightarrow> 's \<Rightarrow> (view \<times> 's) result"
  and mapElems ::
    "view list \<Rightarrow> (loc \<Rightarrow> jsval \<Rightarrow> 's \<Rightarrow> (view \<times> 's) result) \<Rightarrow> 's \<Rightarrow> (view list \<times> 's) result" where
  "applyOrMapRecursive (VArr vs) fct s =
     (case mapElems vs fct s of
        Inl e \<Rightarrow> Inl e
      | Inr (rs, s') \<Rightarrow>
          (let res = filter isDefinedView rs
           in Inr (if length res = 0 then VUndefined else VArr res, s')))"
| "applyOrMapRecursive (VNode l v) fct s = fct l v s"
| "mapElems [] fct s = Inr ([], s)"
| "mapElems (x # xs) fct s =
     (case applyOrMapRecursive x fct s of
        Inl e \<Rightarrow> Inl e
      | Inr (r, s') \<Rightarrow>
          (case mapElems xs fct s' of
             Inl e \<Rightarrow> Inl e
           | Inr (rs, s'') \<Rightarrow> Inr (r # rs, s'')))"

text \<open>The three callbacks of \<^verbatim>\<open>withFetchRewrites\<close>.\<close>

definition keepTypename :: "string \<Rightarrow> loc \<Rightarrow> jsval \<Rightarrow> jsval \<Rightarrow> (view \<times> jsval) result" where
  \<comment> \<open>\<^verbatim>\<open>(elt) => elt[TypeNameMetaFieldDef.name] === typename ? elt : undefined\<close>\<close>
  "keepTypename typename l elt s =
     (case getProp elt TypeNameMetaFieldDef_name of
        Inl e \<Rightarrow> Inl e
      | Inr t \<Rightarrow> Inr (if t = JStr typename then VNode l elt else VUndefined, s))"

definition descend :: "string \<Rightarrow> loc \<Rightarrow> jsval \<Rightarrow> jsval \<Rightarrow> (view \<times> jsval) result" where
  \<comment> \<open>\<^verbatim>\<open>(elt) => elt[p]\<close>\<close>
  "descend p l elt s =
     (case getProp elt p of
        Inl e \<Rightarrow> Inl e
      | Inr w \<Rightarrow> Inr (viewOf (l @ [Key p]) w, s))"

definition moveKey :: "string \<Rightarrow> string \<Rightarrow> jsval \<Rightarrow> jsval" where
  \<comment> \<open>\<^verbatim>\<open>elt[rewrite.renameKeyTo] = elt[removedKey]; elt[removedKey] = undefined;\<close>\<close>
  "moveKey removedKey newKey elt =
     (case elt of
        JObj kvs \<Rightarrow> setProp (setProp elt newKey (getKey kvs removedKey)) removedKey JUndefined
      | _ \<Rightarrow> elt)"

definition renameAt :: "string \<Rightarrow> string \<Rightarrow> loc \<Rightarrow> jsval \<Rightarrow> jsval \<Rightarrow> (view \<times> jsval) result" where
  \<comment> \<open>\<^verbatim>\<open>typeof elt === 'object'\<close> holds for objects and for \<^verbatim>\<open>null\<close>, where the
      assignment throws.\<close>
  "renameAt removedKey newKey l elt s =
     (case elt of
        JObj _ \<Rightarrow> Inr (VUndefined, modify (moveKey removedKey newKey) l s)
      | JNull \<Rightarrow> Inl (TypeError (''Cannot read properties of null (reading '' @ removedKey @ '')''))
      | _ \<Rightarrow> Inr (VUndefined, s))"

definition startsWith :: "string \<Rightarrow> string \<Rightarrow> bool" where
  "startsWith p pre = (take (length pre) p = pre)"

text \<open>
  The \<^verbatim>\<open>while (obj && i < rewrite.path.length - 1)\<close> loop of
  \<^verbatim>\<open>withFetchRewrites\<close>, over the steps \<open>path[i..n-2]\<close> that are left.
\<close>

fun walkRewritePath :: "view \<Rightarrow> string list \<Rightarrow> jsval \<Rightarrow> view result" where
  "walkRewritePath obj [] s = Inr obj"
| "walkRewritePath obj (p # ps) s =
     (if \<not> truthyView obj then Inr obj
      else if startsWith p ''... on ''
      then (case applyOrMapRecursive obj (keepTypename (drop (length ''... on '') p)) s of
              Inl e \<Rightarrow> Inl e
            | Inr (obj', _) \<Rightarrow> walkRewritePath obj' ps s)
      else (case applyOrMapRecursive obj (descend p) s of
              Inl e \<Rightarrow> Inl e
            | Inr (obj', _) \<Rightarrow> walkRewritePath obj' ps s))"

text \<open>
  One round of the \<^verbatim>\<open>for (const rewrite of rewrites)\<close> loop. When the walk has gone
  through, \<open>i = n - 1\<close> and the key to remove is \<open>path[n-1]\<close>; on the empty path
  \<open>path[0]\<close> is \<^verbatim>\<open>undefined\<close>, which as a key reads \<^verbatim>\<open>"undefined"\<close>.
\<close>

definition applyRewrite :: "FetchDataOutputRewrite \<Rightarrow> jsval \<Rightarrow> jsval result" where
  "applyRewrite rewrite fetchResult =
     (case walkRewritePath (viewOf [] fetchResult) (butlast (out_path rewrite)) fetchResult of
        Inl e \<Rightarrow> Inl e
      | Inr obj \<Rightarrow>
          if truthyView obj then
            (let removedKey = (if out_path rewrite = [] then ''undefined'' else last (out_path rewrite))
             in case applyOrMapRecursive obj (renameAt removedKey (renameKeyTo rewrite)) fetchResult of
                  Inl e \<Rightarrow> Inl e
                | Inr (_, fetchResult') \<Rightarrow> Inr fetchResult')
          else Inr fetchResult)"

fun applyRewrites :: "FetchDataOutputRewrite list \<Rightarrow> jsval \<Rightarrow> jsval result" where
  "applyRewrites [] fetchResult = Inr fetchResult"
| "applyRewrites (rewrite # rewrites) fetchResult =
     (case applyRewrite rewrite fetchResult of
        Inl e \<Rightarrow> Inl e
      | Inr fetchResult' \<Rightarrow> applyRewrites rewrites fetchResult')"

definition withFetchRewrites :: "jsval \<Rightarrow> FetchDataOutputRewrite list option \<Rightarrow> jsval result" where
  "withFetchRewrites fetchResult rewrites =
     (case rewrites of
        None \<Rightarrow> Inr fetchResult
      | Some rs \<Rightarrow> if \<not> truthy fetchResult then Inr fetchResult else applyRewrites rs fetchResult)"

section \<open>Error paths\<close>

text \<open>
  \<^verbatim>\<open>generateHydratedPaths\<close>; the value is the list of paths the source pushes onto
  \<^verbatim>\<open>result\<close>, in order. \<open>hydrateEntries\<close> is the loop
  \<^verbatim>\<open>for (const [i, value] of data.entries())\<close>, from index \<open>i\<close> on. The operator
  \<^verbatim>\<open>in\<close> throws on a value that is not an object.
\<close>

fun generateHydratedPaths :: "ResponsePath \<Rightarrow> ResponsePath \<Rightarrow> jsval \<Rightarrow> ResponsePath list result"
  and hydrateEntries :: "ResponsePath \<Rightarrow> ResponsePath \<Rightarrow> nat \<Rightarrow> jsval list \<Rightarrow> ResponsePath list result" where
  "generateHydratedPaths parent path JNull = Inr []"
| "generateHydratedPaths parent path JUndefined = Inr []"
| "generateHydratedPaths parent [] data = Inr [parent]"
| "generateHydratedPaths parent (PStr head # rest) (JArr vs) =
     (if head = ''@'' then hydrateEntries parent rest 0 vs
      else hydrateEntries parent (PStr head # rest) 0 vs)"
| "generateHydratedPaths parent (PStr head # rest) (JObj kvs) =
     (if head = ''@'' then Inl (AssertionError ''expected array when encountering @'')
      else if hasKey (JObj kvs) head
           then generateHydratedPaths (parent @ [PStr head]) rest (getKey kvs head)
           else Inr [])"
| "generateHydratedPaths parent (PStr head # rest) data =
     (if head = ''@'' then Inl (AssertionError ''expected array when encountering @'')
      else Inl (TypeError (''Cannot use in operator to search for '' @ head)))"
| "generateHydratedPaths parent (PNum n # rest) data = Inl (AssertionError ''unknown path part'')"
| "hydrateEntries parent path i [] = Inr []"
| "hydrateEntries parent path i (value # values) =
     (case generateHydratedPaths (parent @ [PNum (int i)]) path value of
        Inl e \<Rightarrow> Inl e
      | Inr ps \<Rightarrow>
          (case hydrateEntries parent path (Suc i) values of
             Inl e \<Rightarrow> Inl e
           | Inr qs \<Rightarrow> Inr (ps @ qs)))"

text \<open>
  The function that \<^verbatim>\<open>makeLazyErrorPathGenerator\<close> returns, applied to the path of a
  subgraph error. \<open>requires\<close> is \<^verbatim>\<open>fetch.requires\<close>, \<open>cursorPath\<close> and \<open>fullResult\<close>
  are the fields of the cursor. The source computes \<^verbatim>\<open>hydratedPaths\<close> at the first
  call that needs them and keeps them; the full result does not change between the calls
  made for one response, so computing them at each call gives the same paths.
  \<^verbatim>\<open>hydratedPaths[n] ?? []\<close> is the empty path when \<open>n\<close> is not an index of the list.
\<close>

definition makeLazyErrorPathGenerator ::
  "selection list option \<Rightarrow> ResponsePath \<Rightarrow> jsval \<Rightarrow> ResponsePath option \<Rightarrow> ResponsePath option result" where
  "makeLazyErrorPathGenerator requires cursorPath fullResult errorPath =
     (case errorPath of
        None \<Rightarrow> Inr None
      | Some ep \<Rightarrow>
          (case ep of
             p0 # PNum n # rest \<Rightarrow>
               if requires \<noteq> None then
                 (case generateHydratedPaths [] cursorPath fullResult of
                    Inl e \<Rightarrow> Inl e
                  | Inr hydratedPaths \<Rightarrow>
                      Inr (Some ((if 0 \<le> n \<and> nat n < length hydratedPaths
                                  then hydratedPaths ! nat n else []) @ rest)))
               else Inr (Some (cursorPath @ ep))
           | _ \<Rightarrow> Inr (Some (cursorPath @ ep))))"

text \<open>\<^verbatim>\<open>GraphQLFormattedError\<close>, an error as a subgraph returns it (no message: \<open>[]\<close>).\<close>

record GraphQLFormattedError =
  fe_message :: string
  fe_path :: "ResponsePath option"
  fe_extensions :: "(string \<times> jsval) list option"

text \<open>
  Modelled from the spec: \<^verbatim>\<open>errorCodeDef\<close> and \<^verbatim>\<open>ERRORS\<close> of
  \<^verbatim>\<open>@apollo/federation-internals\<close> are not part of the sources. Error codes prefer the
  original error's code, otherwise default to \<^verbatim>\<open>DOWNSTREAM_SERVICE_ERROR\<close>.
\<close>

definition errorCode :: "(string \<times> jsval) list \<Rightarrow> jsval" where
  "errorCode exts =
     (if truthy (getKey exts ''code'') then getKey exts ''code''
      else JStr ''DOWNSTREAM_SERVICE_ERROR'')"

text \<open>
  \<^verbatim>\<open>downstreamServiceError\<close>: the gateway error made from an error of a subgraph, with
  the path that \<open>generateErrorPath\<close> gives and the name of the service in its extensions.
\<close>

definition downstreamServiceError ::
  "GraphQLFormattedError \<Rightarrow> string \<Rightarrow> (ResponsePath option \<Rightarrow> ResponsePath option result)
     \<Rightarrow> error result" where
  "downstreamServiceError originalError serviceName generateErrorPath =
     (let message = (if fe_message originalError = []
                     then ''Error while fetching subquery from service '' @ serviceName
                     else fe_message originalError);
          exts = (case fe_extensions originalError of None \<Rightarrow> [] | Some x \<Rightarrow> x)
      in case generateErrorPath (fe_path originalError) of
           Inl e \<Rightarrow> Inl e
         | Inr p \<Rightarrow>
             Inr (GraphQLErr \<lparr>message = message, err_path = p,
                    extensions =
                      AList.update ''code'' (errorCode exts)
                        (AList.update ''serviceName'' (JStr serviceName) exts)\<rparr>))"

section \<open>Cursors\<close>

text \<open>
  \<^verbatim>\<open>ResultCursor\<close>. Its \<^verbatim>\<open>data\<close> refers into the full result: to one node, or it is a
  fresh array (built by \<^verbatim>\<open>flatMap\<close>) of references to nodes. The nodes are given by
  their locations and read in the full result when they are used. The field
  \<^verbatim>\<open>fullResult\<close> of every cursor is the one response tree of the request, which the
  model keeps in the execution state.
\<close>

datatype cursorData = Single loc | Many "loc list"

record ResultCursor =
  cur_path :: ResponsePath
  cur_data :: cursorData

definition elemLocs :: "jsval \<Rightarrow> loc \<Rightarrow> loc list" where
  "elemLocs tree l = map (\<lambda>i. l @ [Idx i]) [0..<length (arrayElems (lookup tree l))]"

fun dataIsArray :: "jsval \<Rightarrow> cursorData \<Rightarrow> bool" where
  "dataIsArray tree (Single l) = isArray (lookup tree l)"
| "dataIsArray tree (Many ls) = True"

fun dataElems :: "jsval \<Rightarrow> cursorData \<Rightarrow> loc list" where
  "dataElems tree (Single l) = elemLocs tree l"
| "dataElems tree (Many ls) = ls"

fun dataTruthy :: "jsval \<Rightarrow> cursorData \<Rightarrow> bool" where
  "dataTruthy tree (Single l) = truthy (lookup tree l)"
| "dataTruthy tree (Many ls) = True"

fun dataNullish :: "jsval \<Rightarrow> cursorData \<Rightarrow> bool" where
  "dataNullish tree (Single l) = (lookup tree l = JUndefined \<or> lookup tree l = JNull)"
| "dataNullish tree (Many ls) = False"

text \<open>
  \<^verbatim>\<open>flattenResultsAtPath\<close>; \<open>flatMapElems\<close> is \<^verbatim>\<open>value.flatMap\<close>, which splices in the
  elements of every array that the callback returns. Calling \<^verbatim>\<open>flatMap\<close> on a value
  that is not an array throws.
\<close>

fun flattenResultsAtPath :: "jsval \<Rightarrow> cursorData \<Rightarrow> ResponsePath \<Rightarrow> cursorData result"
  and flatMapElems :: "jsval \<Rightarrow> loc list \<Rightarrow> ResponsePath \<Rightarrow> loc list result" where
  "flattenResultsAtPath tree value [] = Inr value"
| "flattenResultsAtPath tree value (current # rest) =
     (if dataNullish tree value then Inr value
      else if current = PStr ''@'' then
        (if dataIsArray tree value then
           (case flatMapElems tree (dataElems tree value) rest of
              Inl e \<Rightarrow> Inl e
            | Inr ls \<Rightarrow> Inr (Many ls))
         else Inl (TypeError ''value.flatMap is not a function''))
      else
        (case current of
           PNum n \<Rightarrow> Inl (AssertionError ''Unexpected number found in path'')
         | PStr k \<Rightarrow>
             (case value of
                Many ls \<Rightarrow> Inl (AssertionError (''Unexpected array in result for path element '' @ k))
              | Single l \<Rightarrow>
                  if isArray (lookup tree l)
                  then Inl (AssertionError (''Unexpected array in result for path element '' @ k))
                  else flattenResultsAtPath tree (Single (l @ [Key k])) rest)))"
| "flatMapElems tree [] rest = Inr []"
| "flatMapElems tree (element # elements) rest =
     (case flattenResultsAtPath tree (Single element) rest of
        Inl e \<Rightarrow> Inl e
      | Inr r \<Rightarrow>
          (case flatMapElems tree elements rest of
             Inl e \<Rightarrow> Inl e
           | Inr rs \<Rightarrow>
               Inr ((case r of
                       Many ls \<Rightarrow> ls
                     | Single l \<Rightarrow> if isArray (lookup tree l) then elemLocs tree l else [l]) @ rs)))"

definition moveIntoCursor :: "jsval \<Rightarrow> ResultCursor \<Rightarrow> ResponsePath \<Rightarrow> ResultCursor option result" where
  "moveIntoCursor tree cursor pathInCursor =
     (case flattenResultsAtPath tree (cur_data cursor) pathInCursor of
        Inl e \<Rightarrow> Inl e
      | Inr d \<Rightarrow>
          Inr (if dataTruthy tree d
               then Some \<lparr>cur_path = cur_path cursor @ pathInCursor, cur_data = d\<rparr>
               else None))"

section \<open>The fetch executor\<close>

text \<open>\<^verbatim>\<open>FetchNode\<close> and \<^verbatim>\<open>PlanNode\<close> of \<^verbatim>\<open>@apollo/query-planner\<close>.\<close>

record FetchNode =
  serviceName :: string
  variableUsages :: "string list option"
  requires :: "selection list option"
  operation :: string
  operationName :: "string option"
  inputRewrites :: "FetchDataInputRewrite list option"
  outputRewrites :: "FetchDataOutputRewrite list option"

datatype PlanNode =
    Sequence "PlanNode list"
  | Parallel "PlanNode list"
  | Flatten ResponsePath PlanNode
  | Fetch FetchNode
  | Defer
  | Condition

text \<open>
  A subgraph data source: \<^verbatim>\<open>service.process\<close> answers a request with a response, or
  throws. Trace capture (\<^verbatim>\<open>ftv1\<close>), spans and the metrics sink are not modelled.
\<close>

record GraphQLRequest =
  query :: string
  variables :: "(string \<times> jsval) list"
  req_operationName :: "string option"

record GraphQLResponse =
  rsp_data :: jsval
  rsp_errors :: "GraphQLFormattedError list option"

type_synonym GraphQLDataSource = "GraphQLRequest \<Rightarrow> GraphQLResponse result"

text \<open>
  \<^verbatim>\<open>ExecutionContext\<close>: the service map, the variables of the request
  (\<^verbatim>\<open>requestContext.request.variables\<close>) and the supergraph schema are read only. What
  execution changes is the state: the response tree, the list \<^verbatim>\<open>context.errors\<close>, and
  (kept by the model, to state what was sent) the requests passed to data sources.
\<close>

record ExecutionContext =
  serviceMap :: "(string \<times> GraphQLDataSource) list"
  providedVariables :: "(string \<times> jsval) list option"
  supergraphSchema :: GraphQLSchema

record ExecutionState =
  fullResult :: jsval
  errors :: "error list"
  sent :: "(string \<times> GraphQLRequest) list"

text \<open>The entities of a cursor: \<^verbatim>\<open>Array.isArray(currentCursor.data) ? ... : ...\<close>.\<close>

definition collectEntities :: "jsval \<Rightarrow> cursorData \<Rightarrow> loc list" where
  "collectEntities tree d =
     (if dataIsArray tree d
      then filter (\<lambda>l. isNotNullOrUndefined (lookup tree l)) (dataElems tree d)
      else (case d of Single l \<Rightarrow> [l] | Many ls \<Rightarrow> ls))"

text \<open>The loop over \<^verbatim>\<open>fetch.variableUsages\<close> that fills \<^verbatim>\<open>variables\<close>.\<close>

fun collectVariables ::
  "string list \<Rightarrow> (string \<times> jsval) list option \<Rightarrow> (string \<times> jsval) list \<Rightarrow> (string \<times> jsval) list" where
  "collectVariables [] provided vars = vars"
| "collectVariables (variableName # rest) provided vars =
     (case provided of
        None \<Rightarrow> collectVariables rest provided vars
      | Some pv \<Rightarrow>
          if getKey pv variableName \<noteq> JUndefined
          then collectVariables rest provided (AList.update variableName (getKey pv variableName) vars)
          else collectVariables rest provided vars)"

definition fetchVariables :: "ExecutionContext \<Rightarrow> FetchNode \<Rightarrow> (string \<times> jsval) list" where
  "fetchVariables context fetch =
     (case variableUsages fetch of
        None \<Rightarrow> []
      | Some usages \<Rightarrow> collectVariables usages (providedVariables context) [])"

text \<open>
  The \<^verbatim>\<open>entities.forEach\<close> loop that builds \<^verbatim>\<open>representations\<close> and
  \<^verbatim>\<open>representationToEntity\<close>; \<open>index\<close> is the index of the first entity of the list.
\<close>

definition viable :: "jsval \<Rightarrow> bool" where
  \<comment> \<open>\<^verbatim>\<open>representation && representation[TypeNameMetaFieldDef.name]\<close>\<close>
  "viable representation =
     (truthy representation \<and>
      (case getProp representation TypeNameMetaFieldDef_name of Inl e \<Rightarrow> False | Inr t \<Rightarrow> truthy t))"

fun buildRepresentations ::
  "GraphQLSchema \<Rightarrow> jsval \<Rightarrow> selection list \<Rightarrow> FetchDataInputRewrite list option \<Rightarrow> nat \<Rightarrow> loc list
     \<Rightarrow> (jsval list \<times> nat list) result" where
  "buildRepresentations schema tree req rewrites index [] = Inr ([], [])"
| "buildRepresentations schema tree req rewrites index (entity # entities) =
     (case executeSelectionSet schema (lookup tree entity) req rewrites of
        Inl e \<Rightarrow> Inl e
      | Inr representation \<Rightarrow>
          (case buildRepresentations schema tree req rewrites (Suc index) entities of
             Inl e \<Rightarrow> Inl e
           | Inr (representations, representationToEntity) \<Rightarrow>
               if viable representation
               then Inr (representation # representations, index # representationToEntity)
               else Inr (representations, representationToEntity)))"

text \<open>Decimal digits, and the text of a value in a template string \<^verbatim>\<open>${...}\<close>.\<close>

fun showNat :: "nat \<Rightarrow> string" where
  "showNat n = (if n < 10 then [char_of (48 + n)] else showNat (n div 10) @ [char_of (48 + n mod 10)])"

declare showNat.simps [simp del]

fun jsToString :: "jsval \<Rightarrow> string"
  and joinElems :: "jsval list \<Rightarrow> string" where
  "jsToString (JStr x) = x"
| "jsToString JUndefined = ''undefined''"
| "jsToString JNull = ''null''"
| "jsToString (JBool b) = (if b then ''true'' else ''false'')"
| "jsToString (JNum n) = (if n < 0 then ''-'' @ showNat (nat (- n)) else showNat (nat n))"
| "jsToString (JArr vs) = joinElems vs"
| "jsToString (JObj kvs) = ''[object Object]''"
| "joinElems [] = []"
| "joinElems (v # vs) =
     (if v = JNull \<or> v = JUndefined then [] else jsToString v)
     @ (if vs = [] then [] else '','' @ joinElems vs)"

text \<open>\<^verbatim>\<open>filterEntityRewrites\<close>; reading \<^verbatim>\<open>__typename\<close> of \<^verbatim>\<open>undefined\<close> throws.\<close>

definition filterEntityRewrites ::
  "jsval \<Rightarrow> FetchDataOutputRewrite list option \<Rightarrow> FetchDataOutputRewrite list option result" where
  "filterEntityRewrites entity rewrites =
     (case rewrites of
        None \<Rightarrow> Inr None
      | Some rs \<Rightarrow>
          (case getProp entity TypeNameMetaFieldDef_name of
             Inl e \<Rightarrow> Inl e
           | Inr typename \<Rightarrow>
               (let typenameAsFragment = ''... on '' @ jsToString typename
                in Inr (Some (map (\<lambda>r. r\<lparr>out_path := tl (out_path r)\<rparr>)
                          (filter (\<lambda>r. out_path r \<noteq> [] \<and> hd (out_path r) = typenameAsFragment) rs))))))"

text \<open>
  \<^verbatim>\<open>sendOperation\<close>: the request is passed to the data source; the errors of the
  response are turned into gateway errors and pushed onto \<^verbatim>\<open>context.errors\<close>; the data
  of the response are returned.
\<close>

definition sendOperation ::
  "GraphQLDataSource \<Rightarrow> FetchNode \<Rightarrow> ResultCursor \<Rightarrow> (string \<times> jsval) list \<Rightarrow> ExecutionState
     \<Rightarrow> jsval result \<times> ExecutionState" where
  "sendOperation service fetch currentCursor vars st =
     (let request = \<lparr>query = operation fetch, variables = vars,
                      req_operationName = operationName fetch\<rparr>;
          st1 = st\<lparr>sent := sent st @ [(serviceName fetch, request)]\<rparr>
      in case service request of
           Inl e \<Rightarrow> (Inl e, st1)
         | Inr response \<Rightarrow>
             (case rsp_errors response of
                None \<Rightarrow> (Inr (rsp_data response), st1)
              | Some es \<Rightarrow>
                  (case collect (map (\<lambda>error.
                           downstreamServiceError error (serviceName fetch)
                             (makeLazyErrorPathGenerator (requires fetch) (cur_path currentCursor)
                                (fullResult st1))) es) of
                     Inl e \<Rightarrow> (Inl e, st1)
                   | Inr errs \<Rightarrow>
                       (Inr (rsp_data response), st1\<lparr>errors := errors st1 @ errs\<rparr>))))"

text \<open>
  The merge of a fetch without \<^verbatim>\<open>requires\<close>:
  \<^verbatim>\<open>for (const entity of entities) deepMerge(entity, withFetchRewrites(data, rewrites))\<close>.
  The rewrites change the data in place, so each round works on the data the round before
  has left.
\<close>

fun mergeIntoAll ::
  "loc list \<Rightarrow> jsval \<Rightarrow> FetchDataOutputRewrite list option \<Rightarrow> jsval \<Rightarrow> error option \<times> jsval" where
  "mergeIntoAll [] dataReceived rewrites tree = (None, tree)"
| "mergeIntoAll (entity # entities) dataReceived rewrites tree =
     (case withFetchRewrites dataReceived rewrites of
        Inl e \<Rightarrow> (Some e, tree)
      | Inr dataRewritten \<Rightarrow>
          mergeIntoAll entities dataRewritten rewrites
            (modify (\<lambda>t. deepMerge t dataRewritten) entity tree))"

text \<open>
  The merge of a fetch with \<^verbatim>\<open>requires\<close>, the loop
  \<^verbatim>\<open>for (let i = 0; i < entities.length; i++)\<close> over the indices that are left. Reading
  an array past its end gives \<^verbatim>\<open>undefined\<close>, and \<^verbatim>\<open>entities[undefined]\<close> is
  \<^verbatim>\<open>undefined\<close>: then \<^verbatim>\<open>deepMerge\<close> has no object to change.
\<close>

definition nthOrUndefined :: "jsval list \<Rightarrow> nat \<Rightarrow> jsval" where
  "nthOrUndefined xs i = (if i < length xs then xs ! i else JUndefined)"

definition entityAt :: "loc list \<Rightarrow> nat list \<Rightarrow> nat \<Rightarrow> loc option" where
  \<comment> \<open>\<^verbatim>\<open>entities[representationToEntity[i]]\<close>\<close>
  "entityAt entities representationToEntity i =
     (if i < length representationToEntity \<and> representationToEntity ! i < length entities
      then Some (entities ! (representationToEntity ! i)) else None)"

definition rewrittenEntity ::
  "jsval list \<Rightarrow> jsval list \<Rightarrow> FetchDataOutputRewrite list option \<Rightarrow> nat \<Rightarrow> jsval result" where
  \<comment> \<open>\<^verbatim>\<open>withFetchRewrites(receivedEntities[i], filterEntityRewrites(representations[i], fetch.outputRewrites))\<close>\<close>
  "rewrittenEntity receivedEntities representations rewrites i =
     (case filterEntityRewrites (nthOrUndefined representations i) rewrites of
        Inl e \<Rightarrow> Inl e
      | Inr filtered \<Rightarrow> withFetchRewrites (nthOrUndefined receivedEntities i) filtered)"

fun mergeEntities ::
  "nat list \<Rightarrow> loc list \<Rightarrow> nat list \<Rightarrow> jsval list \<Rightarrow> jsval list \<Rightarrow> FetchDataOutputRewrite list option
     \<Rightarrow> jsval \<Rightarrow> error option \<times> jsval" where
  "mergeEntities [] entities representationToEntity receivedEntities representations rewrites tree =
     (None, tree)"
| "mergeEntities (i # is) entities representationToEntity receivedEntities representations rewrites tree =
     (case rewrittenEntity receivedEntities representations rewrites i of
        Inl e \<Rightarrow> (Some e, tree)
      | Inr received \<Rightarrow>
          mergeEntities is entities representationToEntity receivedEntities representations rewrites
            (case entityAt entities representationToEntity i of
               Some entity \<Rightarrow> modify (\<lambda>t. deepMerge t received) entity tree
             | None \<Rightarrow> tree))"

text \<open>
  \<^verbatim>\<open>executeFetch\<close>. The value is the exception thrown, if any, and the state left
  behind: what was merged and recorded before a throw stays.
\<close>

definition executeFetch ::
  "ExecutionContext \<Rightarrow> FetchNode \<Rightarrow> ResultCursor \<Rightarrow> ExecutionState \<Rightarrow> error option \<times> ExecutionState" where
  "executeFetch context fetch currentCursor st =
     (case map_of (serviceMap context) (serviceName fetch) of
        None \<Rightarrow> (Some (Error (''Couldn't find service with name '' @ serviceName fetch)), st)
      | Some service \<Rightarrow>
          (let entities = collectEntities (fullResult st) (cur_data currentCursor) in
           if length entities < 1 then (None, st)
           else
             let vars = fetchVariables context fetch
             in case requires fetch of
                  None \<Rightarrow>
                    (case sendOperation service fetch currentCursor vars st of
                       (Inl e, st1) \<Rightarrow> (Some e, st1)
                     | (Inr dataReceivedFromService, st1) \<Rightarrow>
                         (case mergeIntoAll entities dataReceivedFromService (outputRewrites fetch)
                                 (fullResult st1) of
                            (r, tree) \<Rightarrow> (r, st1\<lparr>fullResult := tree\<rparr>)))
                | Some req \<Rightarrow>
                    (case buildRepresentations (supergraphSchema context) (fullResult st) req
                            (inputRewrites fetch) 0 entities of
                       Inl e \<Rightarrow> (Some e, st)
                     | Inr (representations, representationToEntity) \<Rightarrow>
                         if length representations < 1 then (None, st)
                         else if ''representations'' \<in> fst ` set vars
                         then (Some (Error ''Variables cannot contain key representations''), st)
                         else
                           (case sendOperation service fetch currentCursor
                                   (AList.update ''representations'' (JArr representations) vars) st of
                              (Inl e, st1) \<Rightarrow> (Some e, st1)
                            | (Inr dataReceivedFromService, st1) \<Rightarrow>
                                if \<not> truthy dataReceivedFromService then (None, st1)
                                else
                                  (case getProp dataReceivedFromService ''_entities'' of
                                     Inl e \<Rightarrow> (Some e, st1)
                                   | Inr receivedEntities \<Rightarrow>
                                       if \<not> (truthy receivedEntities \<and> isArray receivedEntities)
                                       then (Some (Error ''Expected data._entities in response to be an array''), st1)
                                       else if length (arrayElems receivedEntities) \<noteq> length representations
                                       then (Some (Error (''Expected data._entities to contain ''
                                                          @ showNat (length representations) @ '' elements'')), st1)
                                       else
                                         (case mergeEntities [0..<length entities] entities
                                                 representationToEntity (arrayElems receivedEntities)
                                                 representations (outputRewrites fetch) (fullResult st1) of
                                            (r, tree) \<Rightarrow> (r, st1\<lparr>fullResult := tree\<rparr>)))))))"

section \<open>The plan interpreter and the entry point\<close>

text \<open>
  \<^verbatim>\<open>executeNode\<close>; its value is the state after the node, or the exception that leaves
  it. An exception of \<^verbatim>\<open>executeFetch\<close> is caught and pushed onto \<^verbatim>\<open>context.errors\<close>.
  The children of a \<^verbatim>\<open>Parallel\<close> node are run one after the other, from left to right:
  one of the orders in which their steps may be taken.
\<close>

fun executeNode ::
    "ExecutionContext \<Rightarrow> PlanNode \<Rightarrow> ResultCursor option \<Rightarrow> ExecutionState \<Rightarrow> ExecutionState result"
  and executeNodes ::
    "ExecutionContext \<Rightarrow> PlanNode list \<Rightarrow> ResultCursor option \<Rightarrow> ExecutionState \<Rightarrow> ExecutionState result" where
  "executeNode context node None st = Inr st"
| "executeNode context (Sequence nodes) (Some currentCursor) st =
     executeNodes context nodes (Some currentCursor) st"
| "executeNode context (Parallel nodes) (Some currentCursor) st =
     executeNodes context nodes (Some currentCursor) st"
| "executeNode context (Flatten p node) (Some currentCursor) st =
     (case moveIntoCursor (fullResult st) currentCursor p of
        Inl e \<Rightarrow> Inl e
      | Inr cursor \<Rightarrow> executeNode context node cursor st)"
| "executeNode context (Fetch fetch) (Some currentCursor) st =
     (case executeFetch context fetch currentCursor st of
        (None, st1) \<Rightarrow> Inr st1
      | (Some error, st1) \<Rightarrow> Inr (st1\<lparr>errors := errors st1 @ [error]\<rparr>))"
| "executeNode context Defer (Some currentCursor) st =
     Inl (AssertionError ''@defer support is not available in the gateway'')"
| "executeNode context Condition (Some currentCursor) st =
     Inl (AssertionError ''Condition nodes are not available in the gateway'')"
| "executeNodes context [] cursor st = Inr st"
| "executeNodes context (childNode # nodes) cursor st =
     (case executeNode context childNode cursor st of
        Inl e \<Rightarrow> Inl e
      | Inr st1 \<Rightarrow> executeNodes context nodes cursor st1)"

text \<open>
  \<^verbatim>\<open>GatewayExecutionResult\<close>, the envelope: \<open>None\<close> is a key that is not there. The
  entries of \<^verbatim>\<open>errors\<close> are what \<^verbatim>\<open>context.errors\<close> holds.
\<close>

record GatewayExecutionResult =
  res_data :: "jsval option"
  res_errors :: "error list option"

definition isGraphQLError :: "error \<Rightarrow> bool" where
  \<comment> \<open>\<^verbatim>\<open>error instanceof GraphQLError\<close>\<close>
  "isGraphQLError e = (case e of GraphQLErr _ \<Rightarrow> True | _ \<Rightarrow> False)"

definition isError :: "error \<Rightarrow> bool" where
  \<comment> \<open>\<^verbatim>\<open>error instanceof Error\<close>\<close>
  "isError e = (case e of Thrown _ \<Rightarrow> False | _ \<Rightarrow> True)"

fun errorMessage :: "error \<Rightarrow> string" where
  "errorMessage (Error m) = m"
| "errorMessage (TypeError m) = m"
| "errorMessage (AssertionError m) = m"
| "errorMessage (GraphQLErr g) = message g"
| "errorMessage (Thrown v) = jsToString v"

definition newGraphQLError :: "string \<Rightarrow> error" where
  "newGraphQLError m = GraphQLErr \<lparr>message = m, err_path = None, extensions = []\<rparr>"

text \<open>
  The post-processing step of \<^verbatim>\<open>executeQueryPlan\<close>. \<open>computeResponse\<close> stands for
  what the source runs inside its \<^verbatim>\<open>try\<close>: \<^verbatim>\<open>operationFromDocument\<close> and
  \<^verbatim>\<open>computeResponse\<close> of \<^verbatim>\<open>resultShaping\<close> (not part of the sources). From the tree
  it gives the data and the post-processing errors, or it throws.
\<close>

definition postProcessing ::
  "(jsval \<Rightarrow> (jsval \<times> GraphQLError list) result) \<Rightarrow> ExecutionState \<Rightarrow> GatewayExecutionResult" where
  "postProcessing computeResponse st =
     (case computeResponse (fullResult st) of
        Inr (d, postProcessingErrors) \<Rightarrow>
          if length (errors st) = 0 \<and> length postProcessingErrors > 0
          then \<lparr>res_data = Some d, res_errors = Some (map GraphQLErr postProcessingErrors)\<rparr>
          else if length (errors st) = 0
          then \<lparr>res_data = Some d, res_errors = None\<rparr>
          else \<lparr>res_data = Some d, res_errors = Some (errors st)\<rparr>
      | Inl error \<Rightarrow>
          if isGraphQLError error then \<lparr>res_data = None, res_errors = Some [error]\<rparr>
          else if isError error
          then \<lparr>res_data = None, res_errors = Some [newGraphQLError (errorMessage error)]\<rparr>
          else \<lparr>res_data = None,
                 res_errors = Some [newGraphQLError ''Unexpected error during query plan execution'']\<rparr>)"

text \<open>The state and the cursor that \<^verbatim>\<open>executeQueryPlan\<close> starts from.\<close>

definition emptyState :: ExecutionState where
  "emptyState = \<lparr>fullResult = JObj [], errors = [], sent = []\<rparr>"

definition rootCursor :: ResultCursor where
  "rootCursor = \<lparr>cur_path = [], cur_data = Single []\<rparr>"

text \<open>
  \<^verbatim>\<open>executeQueryPlan\<close>: the plan is run from the empty-path cursor on an empty tree, then
  the tree is post-processed. An exception of the interpreter is thrown again by the outer
  \<^verbatim>\<open>catch\<close>.
\<close>

definition executeQueryPlan ::
  "PlanNode option \<Rightarrow> ExecutionContext \<Rightarrow> (jsval \<Rightarrow> (jsval \<times> GraphQLError list) result)
     \<Rightarrow> GatewayExecutionResult result" where
  "executeQueryPlan queryPlan context computeResponse =
     (case (case queryPlan of
              None \<Rightarrow> Inr emptyState
            | Some node \<Rightarrow> executeNode context node (Some rootCursor) emptyState) of
        Inl err \<Rightarrow> Inl err
      | Inr st \<Rightarrow> Inr (postProcessing computeResponse st))"

section \<open>Reaching an unsupported node\<close>



section \<open>Notions used in the proofs\<close>

text \<open>
  The object nodes that a view refers to, in order, each with the object found there when
  the view was built; and lists of locations none of which lies on the way to another.
\<close>

fun objLeaves :: "view \<Rightarrow> (loc \<times> jsval) list" where
  "objLeaves (VNode l v) = (case v of JObj _ \<Rightarrow> [(l, v)] | _ \<Rightarrow> [])"
| "objLeaves (VArr vs) = concat (map objLeaves vs)"

fun antichain :: "loc list \<Rightarrow> bool" where
  "antichain [] = True"
| "antichain (l # ls) = ((\<forall>m \<in> set ls. \<not> prefix l m \<and> \<not> prefix m l) \<and> antichain ls)"

text \<open>
  For the proofs about output rewrites: a callback that leaves the result alone and whose
  answer refers to the object nodes \<open>g\<close> gives; the object nodes under a key and those
  kept by a type condition; and what holds of the object nodes of every view of a walk
  (none lies inside another, and each is the object now at its location).
\<close>

definition pureCallback ::
  "(loc \<Rightarrow> jsval \<Rightarrow> 's \<Rightarrow> (view \<times> 's) result) \<Rightarrow> (loc \<times> jsval \<Rightarrow> (loc \<times> jsval) list) \<Rightarrow> bool" where
  "pureCallback fct g = (\<forall>l v s r s1. fct l v s = Inr (r, s1) \<longrightarrow>
       s1 = s \<and> objLeaves r = concat (map g (objLeaves (VNode l v))))"

definition viewInv :: "jsval \<Rightarrow> (loc \<times> jsval) list \<Rightarrow> bool" where
  "viewInv t ls = (antichain (map fst ls) \<and> (\<forall>(l, v) \<in> set ls. lookup t l = v \<and> (\<exists>kvs. v = JObj kvs)))"

definition descendLeaves :: "string \<Rightarrow> loc \<times> jsval \<Rightarrow> (loc \<times> jsval) list" where
  "descendLeaves p = (\<lambda>(l, v). objLeaves (viewOf (l @ [Key p]) (lookup v [Key p])))"

definition keepLeaves :: "string \<Rightarrow> loc \<times> jsval \<Rightarrow> (loc \<times> jsval) list" where
  "keepLeaves T = (\<lambda>(l, v). if lookup v [Key TypeNameMetaFieldDef_name] = JStr T then [(l, v)] else [])"

text \<open>For the proofs about the merge: a list of merges, each into the node at a location.\<close>

definition applyMerges :: "(loc \<times> jsval) list \<Rightarrow> jsval \<Rightarrow> jsval" where
  "applyMerges ms tree = fold (\<lambda>(l, src) t. modify (\<lambda>x. deepMerge x src) l t) ms tree"

text \<open>The locations that the data of a cursor refer to.\<close>

definition cursorLocs :: "cursorData \<Rightarrow> loc list" where
  "cursorLocs d = (case d of Single l \<Rightarrow> [l] | Many ls \<Rightarrow> ls)"

section \<open>The scenarios of the specification\<close>

text \<open>
  The plan of scenarios S2 to S4: a fetch of the users from one subgraph, then, for every
  user, an entity fetch from a second subgraph that requires \<^verbatim>\<open>__typename\<close> and
  \<^verbatim>\<open>id\<close>. The data sources answer every request alike.
\<close>

definition userWithId :: "string \<Rightarrow> jsval" where
  "userWithId i = JObj [(''__typename'', JStr ''User''), (''id'', JStr i)]"

definition userWithoutId :: jsval where
  "userWithoutId = JObj [(''__typename'', JStr ''User'')]"

definition usersService :: "jsval list \<Rightarrow> GraphQLDataSource" where
  "usersService users request = Inr \<lparr>rsp_data = JObj [(''users'', JArr users)], rsp_errors = None\<rparr>"

definition entitiesService :: "jsval list \<Rightarrow> GraphQLDataSource" where
  "entitiesService entities request =
     Inr \<lparr>rsp_data = JObj [(''_entities'', JArr entities)], rsp_errors = None\<rparr>"

definition failingService :: "GraphQLFormattedError list \<Rightarrow> GraphQLDataSource" where
  "failingService es request = Inr \<lparr>rsp_data = JNull, rsp_errors = Some es\<rparr>"

definition noDataService :: GraphQLDataSource where
  "noDataService request = Inr \<lparr>rsp_data = JNull, rsp_errors = None\<rparr>"

definition usersFetch :: FetchNode where
  "usersFetch = \<lparr>serviceName = ''A'', variableUsages = None, requires = None,
     operation = ''{ users { __typename id } }'', operationName = None,
     inputRewrites = None, outputRewrites = None\<rparr>"

definition emailFetch :: FetchNode where
  "emailFetch = \<lparr>serviceName = ''B'', variableUsages = None,
     requires = Some [Field None ''__typename'' None, Field None ''id'' None],
     operation = ''query($representations:[_Any!]!){_entities(representations:$representations){... on User{email}}}'',
     operationName = None, inputRewrites = None, outputRewrites = None\<rparr>"

definition usersPlan :: "FetchNode \<Rightarrow> PlanNode" where
  "usersPlan entityFetch =
     Sequence [Fetch usersFetch, Flatten [PStr ''users'', PStr ''@''] (Fetch entityFetch)]"

definition gateway :: "GraphQLDataSource \<Rightarrow> GraphQLDataSource \<Rightarrow> ExecutionContext" where
  "gateway a b = \<lparr>serviceMap = [(''A'', a), (''B'', b)], providedVariables = None,
     supergraphSchema = \<lparr>getType = [(''User'', ObjectType)], subTypes = []\<rparr>\<rparr>"

text \<open>Post-processing that returns the tree as it is, with the errors given, or throws.\<close>

definition shapeWith :: "GraphQLError list \<Rightarrow> jsval \<Rightarrow> (jsval \<times> GraphQLError list) result" where
  "shapeWith postProcessingErrors tree = Inr (tree, postProcessingErrors)"

definition shapeThrows :: "error \<Rightarrow> jsval \<Rightarrow> (jsval \<times> GraphQLError list) result" where
  "shapeThrows e tree = Inl e"

text \<open>
  The state after the fetch of the users, and the cursor that the \<^verbatim>\<open>Flatten\<close> node gives
  the entity fetch when there are two users.
\<close>

definition usersState :: "jsval list \<Rightarrow> ExecutionState" where
  "usersState users = \<lparr>fullResult = JObj [(''users'', JArr users)], errors = [], sent = []\<rparr>"

definition usersCursor :: ResultCursor where
  "usersCursor = \<lparr>cur_path = [PStr ''users'', PStr ''@''],
     cur_data = Many [[Key ''users'', Idx 0], [Key ''users'', Idx 1]]\<rparr>"

definition emailOf :: "string \<Rightarrow> jsval" where
  "emailOf a = JObj [(''email'', JStr a)]"

definition emailRequest :: "jsval list \<Rightarrow> string \<times> GraphQLRequest" where
  "emailRequest representations =
     (''B'', \<lparr>query = operation emailFetch,
              variables = [(''representations'', JArr representations)],
              req_operationName = None\<rparr>)"

text \<open>An entity fetch that declares the variable \<^verbatim>\<open>representations\<close>, which the client supplies.\<close>

definition representationsFetch :: FetchNode where
  "representationsFetch = emailFetch\<lparr>variableUsages := Some [''representations'']\<rparr>"

definition gatewayWithVariables :: "GraphQLDataSource \<Rightarrow> GraphQLDataSource \<Rightarrow> ExecutionContext" where
  "gatewayWithVariables a b = (gateway a b)\<lparr>providedVariables := Some [(''representations'', JNum 1)]\<rparr>"

text \<open>An entity fetch with an output rewrite.\<close>

definition renamingFetch :: FetchNode where
  "renamingFetch = emailFetch\<lparr>outputRewrites :=
     Some [\<lparr>out_path = [''... on User'', ''username''], renameKeyTo = ''login''\<rparr>]\<rparr>"

definition missingFetch :: FetchNode where
  "missingFetch = usersFetch\<lparr>serviceName := ''Z''\<rparr>"

definition shapingError :: GraphQLError where
  "shapingError = \<lparr>message = ''Cannot return null for non-nullable field'', err_path = None,
     extensions = []\<rparr>"

definition boom :: GraphQLFormattedError where
  "boom = \<lparr>fe_message = ''boom'', fe_path = Some [PStr ''_entities'', PNum 0, PStr ''email''],
     fe_extensions = None\<rparr>"

section \<open>Properties of the selection-set walker\<close>









section \<open>Properties of locations\<close>

lemma getKey_update: "getKey (AList.update k v kvs) k' = (if k' = k then v else getKey kvs k')"
  by (simp add: getKey_def update_conv')

lemma getKey_defined_mem: "getKey kvs k \<noteq> JUndefined \<Longrightarrow> k \<in> fst ` set kvs"
  by (auto simp: getKey_def split: option.splits dest: map_of_SomeD intro: rev_image_eqI)

lemma lookup_undefined [simp]: "lookup JUndefined l = JUndefined"
  by (cases l) auto

lemma lookup_append: "lookup t (l @ r) = lookup (lookup t l) r"
proof (induction t l rule: lookup.induct)
qed auto

lemma lookup_modify_same:
  "lookup t l \<noteq> JUndefined \<Longrightarrow> lookup (modify f l t) l = f (lookup t l)"
proof (induction f l t rule: modify.induct)
  case (2 f k l kvs)
  then have "getKey kvs k \<noteq> JUndefined" by auto
  then have "k \<in> fst ` set kvs" by (rule getKey_defined_mem)
  with 2 show ?case by (simp add: getKey_update)
qed auto

lemma lookup_modify_parallel:
  "\<not> prefix m l \<Longrightarrow> \<not> prefix l m \<Longrightarrow> lookup (modify f m t) l = lookup t l"
proof (induction f m t arbitrary: l rule: modify.induct)
  case (1 f v)
  then show ?case by simp
next
  case (2 f k m kvs)
  then obtain st l' where l: "l = st # l'" by (cases l) auto
  show ?case
  proof (cases "st = Key k")
    case True
    with 2 l show ?thesis by (auto simp: getKey_update)
  next
    case False
    with l show ?thesis by (cases st) (auto simp: getKey_update)
  qed
next
  case (3 f i m vs)
  then obtain st l' where l: "l = st # l'" by (cases l) auto
  show ?case
  proof (cases "st = Idx i")
    case True
    with 3 l show ?thesis by auto
  next
    case False
    with l show ?thesis by (cases st) (auto simp: nth_list_update)
  qed
qed (auto)

lemma lookup_fold_others:
  "\<forall>m \<in> set ls. \<not> prefix l m \<and> \<not> prefix m l \<Longrightarrow> lookup (fold (modify f) ls t) l = lookup t l"
  by (induction ls arbitrary: t) (auto simp: lookup_modify_parallel)

lemma lookup_fold_antichain:
  "antichain ls \<Longrightarrow> l \<in> set ls \<Longrightarrow> lookup t l \<noteq> JUndefined
   \<Longrightarrow> lookup (fold (modify f) ls t) l = f (lookup t l)"
proof (induction ls arbitrary: t)
  case Nil then show ?case by simp
next
  case (Cons m ls)
  show ?case
  proof (cases "l = m")
    case True
    with Cons.prems have "\<forall>m' \<in> set ls. \<not> prefix l m' \<and> \<not> prefix m' l" by simp
    then have "lookup (fold (modify f) ls (modify f m t)) l = lookup (modify f m t) l"
      by (rule lookup_fold_others)
    with True Cons.prems(3) show ?thesis by (simp add: lookup_modify_same)
  next
    case False
    with Cons.prems have mem: "l \<in> set ls" and par: "\<not> prefix m l" "\<not> prefix l m" and ac: "antichain ls"
      by auto
    have "lookup (modify f m t) l = lookup t l" using par by (rule lookup_modify_parallel)
    with Cons.IH[OF ac mem, of "modify f m t"] Cons.prems(3) show ?thesis by simp
  qed
qed

section \<open>Properties of the output rewrites\<close>

lemma objLeaves_undefined [simp]: "objLeaves VUndefined = []"
  by (simp add: VUndefined_def)

lemma objLeaves_filter_defined:
  "concat (map objLeaves (filter isDefinedView rs)) = concat (map objLeaves rs)"
proof (induction rs)
  case (Cons r rs)
  then show ?case by (cases r) (auto simp: isDefined_def)
qed simp

lemma objLeaves_filtered_result:
  "objLeaves (if length (filter isDefinedView rs) = 0 then VUndefined else VArr (filter isDefinedView rs))
     = concat (map objLeaves rs)"
proof (cases "filter isDefinedView rs = []")
  case True
  then have "concat (map objLeaves (filter isDefinedView rs)) = []" by simp
  then have "concat (map objLeaves rs) = []" by (simp only: objLeaves_filter_defined)
  with True show ?thesis by simp
next
  case False
  then show ?thesis by (simp add: objLeaves_filter_defined)
qed

lemma rename_fold:
  "applyOrMapRecursive obj (renameAt k k') s = Inr (r, s')
     \<Longrightarrow> s' = fold (modify (moveKey k k')) (map fst (objLeaves obj)) s"
  "mapElems vs (renameAt k k') s = Inr (rs, s')
     \<Longrightarrow> s' = fold (modify (moveKey k k')) (map fst (concat (map objLeaves vs))) s"
proof (induction obj "renameAt k k'" s and vs "renameAt k k'" s arbitrary: r s' and rs s'
    rule: applyOrMapRecursive_mapElems.induct)
  case (1 vs s)
  then show ?case by (auto split: sum.splits prod.splits simp: Let_def)
next
  case (2 l v s)
  then show ?case by (auto simp: renameAt_def split: jsval.splits)
next
  case (3 s)
  then show ?case by simp
next
  case (4 x xs s)
  from "4.prems" obtain r1 s1 rs1 where
    a: "applyOrMapRecursive x (renameAt k k') s = Inr (r1, s1)" and
    b: "mapElems xs (renameAt k k') s1 = Inr (rs1, s')"
    by (auto split: sum.splits prod.splits)
  from "4.hyps"(1)[OF a] have s1: "s1 = fold (modify (moveKey k k')) (map fst (objLeaves x)) s" .
  from "4.hyps"(2)[OF a refl b] have "s' = fold (modify (moveKey k k')) (map fst (concat (map objLeaves xs))) s1" .
  with s1 show ?case by simp
qed

lemma pure_leaves:
  "pureCallback fct g \<Longrightarrow> applyOrMapRecursive obj fct s = Inr (r, s')
     \<Longrightarrow> s' = s \<and> objLeaves r = concat (map g (objLeaves obj))"
  "pureCallback fct g \<Longrightarrow> mapElems vs fct s = Inr (rs, s')
     \<Longrightarrow> s' = s \<and> concat (map objLeaves rs) = concat (map g (concat (map objLeaves vs)))"
proof (induction obj fct s and vs fct s arbitrary: r s' and rs s'
    rule: applyOrMapRecursive_mapElems.induct)
  case (1 vs fct s)
  from "1.prems"(2) obtain rs where m: "mapElems vs fct s = Inr (rs, s')"
    and r: "r = (if length (filter isDefinedView rs) = 0 then VUndefined else VArr (filter isDefinedView rs))"
    by (auto split: sum.splits prod.splits simp: Let_def)
  from "1.IH"[OF "1.prems"(1) m] r show ?case
    by (simp only: objLeaves_filtered_result objLeaves.simps) 
next
  case (2 l v fct s)
  then show ?case by (auto simp: pureCallback_def)
next
  case (3 fct s)
  then show ?case by simp
next
  case (4 x xs fct s)
  from "4.prems"(2) obtain r1 s1 rs1 where
    a: "applyOrMapRecursive x fct s = Inr (r1, s1)" and
    b: "mapElems xs fct s1 = Inr (rs1, s')" and rs: "rs = r1 # rs1"
    by (auto split: sum.splits prod.splits)
  from "4.IH"(1)[OF "4.prems"(1) a] have s1: "s1 = s" "objLeaves r1 = concat (map g (objLeaves x))" by auto
  from "4.IH"(2)[OF a refl "4.prems"(1) b] have "s' = s1" "concat (map objLeaves rs1) = concat (map g (concat (map objLeaves xs)))" by auto
  with s1 rs show ?case by simp
qed

lemma antichain_append:
  "antichain (xs @ ys) = (antichain xs \<and> antichain ys \<and> (\<forall>x \<in> set xs. \<forall>y \<in> set ys. \<not> prefix x y \<and> \<not> prefix y x))"
  by (induction xs) auto

lemma diverge:
  "prefix p x \<Longrightarrow> prefix q y \<Longrightarrow> \<not> prefix p q \<Longrightarrow> \<not> prefix q p \<Longrightarrow> \<not> prefix x y \<and> \<not> prefix y x"
  by (meson prefix_order.trans prefix_same_cases)

lemma viewInv_Nil [simp]: "viewInv t []"
  by (simp add: viewInv_def)

lemma viewInv_append:
  "viewInv t xs \<Longrightarrow> viewInv t ys
   \<Longrightarrow> (\<forall>x \<in> set xs. \<forall>y \<in> set ys. \<not> prefix (fst x) (fst y) \<and> \<not> prefix (fst y) (fst x))
   \<Longrightarrow> viewInv t (xs @ ys)"
  by (auto simp: viewInv_def antichain_append)

lemma viewInv_concat:
  "viewInv t ls \<Longrightarrow> (\<And>l v. (l, v) \<in> set ls \<Longrightarrow> viewInv t (g (l, v)) \<and> (\<forall>x \<in> set (g (l, v)). prefix l (fst x)))
   \<Longrightarrow> viewInv t (concat (map g ls))"
proof (induction ls)
  case Nil then show ?case by simp
next
  case (Cons a ls)
  obtain l v where a: "a = (l, v)" by (cases a)
  have tl: "viewInv t ls" using Cons.prems(1) by (auto simp: viewInv_def)
  have 1: "viewInv t (g a)" using Cons.prems(2)[of l v] a by simp
  have 2: "viewInv t (concat (map g ls))"
  proof (rule Cons.IH[OF tl])
    fix l v assume "(l, v) \<in> set ls"
    then show "viewInv t (g (l, v)) \<and> (\<forall>x \<in> set (g (l, v)). prefix l (fst x))"
      using Cons.prems(2)[of l v] by simp
  qed
  have 3: "\<forall>x \<in> set (g a). \<forall>y \<in> set (concat (map g ls)). \<not> prefix (fst x) (fst y) \<and> \<not> prefix (fst y) (fst x)"
  proof (intro ballI)
    fix x y assume x: "x \<in> set (g a)" and y: "y \<in> set (concat (map g ls))"
    from y obtain b where b: "b \<in> set ls" and yb: "y \<in> set (g b)" by auto
    obtain l2 v2 where b2: "b = (l2, v2)" by (cases b)
    from x Cons.prems(2)[of l v] a have px: "prefix l (fst x)" by auto
    from yb Cons.prems(2)[of l2 v2] b b2 have py: "prefix l2 (fst y)" by auto
    from Cons.prems(1) a b b2 have "\<not> prefix l l2 \<and> \<not> prefix l2 l"
      by (force simp: viewInv_def)
    with px py show "\<not> prefix (fst x) (fst y) \<and> \<not> prefix (fst y) (fst x)"
      using diverge by blast
  qed
  from viewInv_append[OF 1 2 3] show ?case by simp
qed

lemma viewOf_inv:
  "lookup t l = v \<Longrightarrow> viewInv t (objLeaves (viewOf l v)) \<and> (\<forall>x \<in> set (objLeaves (viewOf l v)). prefix l (fst x))"
  "(\<forall>j < length vs. lookup t (l @ [Idx (i + j)]) = vs ! j)
    \<Longrightarrow> viewInv t (concat (map objLeaves (viewsOf l i vs)))
      \<and> (\<forall>x \<in> set (concat (map objLeaves (viewsOf l i vs))). \<exists>j. i \<le> j \<and> prefix (l @ [Idx j]) (fst x))"
proof (induction l v and l i vs rule: viewOf_viewsOf.induct)
  case (1 l vs)
  have "\<forall>j < length vs. lookup t (l @ [Idx (0 + j)]) = vs ! j"
    using 1(2) by (simp add: lookup_append)
  from 1(1)[OF this] show ?case by (auto dest!: bspec intro: prefix_order.trans[OF _ ] simp: prefix_def)
next
  case (9 l i v vs)
  have hd: "lookup t (l @ [Idx i]) = v" using 9(3)[rule_format, of 0] by simp
  have tl: "\<forall>j < length vs. lookup t (l @ [Idx (Suc i + j)]) = vs ! j"
    using 9(3)[rule_format, of "Suc j" for j] by auto
  note A = 9(1)[OF hd] and B = 9(2)[OF tl]
  have sep: "\<forall>x \<in> set (objLeaves (viewOf (l @ [Idx i]) v)). \<forall>y \<in> set (concat (map objLeaves (viewsOf l (Suc i) vs))).
     \<not> prefix (fst x) (fst y) \<and> \<not> prefix (fst y) (fst x)"
  proof (intro ballI)
    fix x y assume x: "x \<in> set (objLeaves (viewOf (l @ [Idx i]) v))"
      and y: "y \<in> set (concat (map objLeaves (viewsOf l (Suc i) vs)))"
    from A x have px: "prefix (l @ [Idx i]) (fst x)" by blast
    from B y obtain j where j: "Suc i \<le> j" and py: "prefix (l @ [Idx j]) (fst y)" by blast
    from j have "\<not> prefix (l @ [Idx i]) (l @ [Idx j])" "\<not> prefix (l @ [Idx j]) (l @ [Idx i])" by auto
    with px py show "\<not> prefix (fst x) (fst y) \<and> \<not> prefix (fst y) (fst x)" using diverge by blast
  qed
  have "viewInv t (objLeaves (viewOf (l @ [Idx i]) v) @ concat (map objLeaves (viewsOf l (Suc i) vs)))"
    using viewInv_append[OF _ _ sep] A B by blast
  moreover have "\<forall>x \<in> set (objLeaves (viewOf (l @ [Idx i]) v) @ concat (map objLeaves (viewsOf l (Suc i) vs))).
      \<exists>j. i \<le> j \<and> prefix (l @ [Idx j]) (fst x)"
  proof
    fix x assume "x \<in> set (objLeaves (viewOf (l @ [Idx i]) v) @ concat (map objLeaves (viewsOf l (Suc i) vs)))"
    then consider "x \<in> set (objLeaves (viewOf (l @ [Idx i]) v))"
      | "x \<in> set (concat (map objLeaves (viewsOf l (Suc i) vs)))" by auto
    then show "\<exists>j. i \<le> j \<and> prefix (l @ [Idx j]) (fst x)"
    proof cases
      case 1
      with A have "prefix (l @ [Idx i]) (fst x)" by blast
      then show ?thesis by blast
    next
      case 2
      with B obtain j where "Suc i \<le> j" "prefix (l @ [Idx j]) (fst x)" by blast
      then show ?thesis using Suc_leD by blast
    qed
  qed
  ultimately show ?case by simp
qed (auto simp: viewInv_def)

lemma pure_descend: "pureCallback (descend p) (descendLeaves p)"
  unfolding pureCallback_def descend_def descendLeaves_def
  by (intro allI impI, rename_tac l v s r s1, case_tac v) (auto split: sum.splits)

lemma pure_keepTypename: "pureCallback (keepTypename T) (keepLeaves T)"
  unfolding pureCallback_def keepTypename_def keepLeaves_def
  by (intro allI impI, rename_tac l v s r s1, case_tac v) (auto split: sum.splits if_splits)

lemma viewInv_descend:
  assumes "viewInv t ls" shows "viewInv t (concat (map (descendLeaves p) ls))"
proof (rule viewInv_concat[OF assms])
  fix l v assume "(l, v) \<in> set ls"
  with assms have "lookup t l = v" by (auto simp: viewInv_def)
  then have "lookup t (l @ [Key p]) = lookup v [Key p]" by (simp add: lookup_append)
  from viewOf_inv(1)[OF this]
  show "viewInv t (descendLeaves p (l, v)) \<and> (\<forall>x \<in> set (descendLeaves p (l, v)). prefix l (fst x))"
    by (auto simp: descendLeaves_def dest: append_prefixD)
qed

lemma viewInv_keep:
  assumes "viewInv t ls" shows "viewInv t (concat (map (keepLeaves T) ls))"
proof (rule viewInv_concat[OF assms])
  fix l v assume "(l, v) \<in> set ls"
  with assms have "lookup t l = v" "\<exists>kvs. v = JObj kvs" by (auto simp: viewInv_def)
  then show "viewInv t (keepLeaves T (l, v)) \<and> (\<forall>x \<in> set (keepLeaves T (l, v)). prefix l (fst x))"
    by (auto simp: keepLeaves_def viewInv_def)
qed

lemma walkRewritePath_inv:
  "viewInv t (objLeaves obj) \<Longrightarrow> walkRewritePath obj ps s = Inr obj' \<Longrightarrow> viewInv t (objLeaves obj')"
proof (induction ps arbitrary: obj)
  case Nil then show ?case by simp
next
  case (Cons p ps)
  show ?case
  proof (cases "truthyView obj")
    case False with Cons.prems show ?thesis by simp
  next
    case True
    show ?thesis
    proof (cases "startsWith p ''... on ''")
      case sw: True
      with True Cons.prems(2) obtain o1 s1 where
        a: "applyOrMapRecursive obj (keepTypename (drop (length ''... on '') p)) s = Inr (o1, s1)"
        and w: "walkRewritePath o1 ps s = Inr obj'"
        by (auto split: sum.splits)
      from pure_leaves(1)[OF pure_keepTypename a] Cons.prems(1)
      have "viewInv t (objLeaves o1)" by (simp add: viewInv_keep)
      from Cons.IH[OF this w] show ?thesis .
    next
      case sw: False
      with True Cons.prems(2) obtain o1 s1 where
        a: "applyOrMapRecursive obj (descend p) s = Inr (o1, s1)"
        and w: "walkRewritePath o1 ps s = Inr obj'"
        by (auto split: sum.splits)
      from pure_leaves(1)[OF pure_descend a] Cons.prems(1)
      have "viewInv t (objLeaves o1)" by (simp add: viewInv_descend)
      from Cons.IH[OF this w] show ?thesis .
    qed
  qed
qed

lemma objLeaves_falsy: "\<not> truthyView obj \<Longrightarrow> objLeaves obj = []"
proof (cases obj)
  case (VNode l v)
  assume "\<not> truthyView obj"
  with VNode show ?thesis by (cases v) auto
next
  case (VArr vs)
  assume "\<not> truthyView obj"
  with VArr show ?thesis by simp
qed

lemma getKey_moveKey:
  "lookup (moveKey k k' (JObj kvs)) [Key x] =
     (if x = k then JUndefined else if x = k' then getKey kvs k else getKey kvs x)"
  by (simp add: moveKey_def getKey_update)

lemma hasKey_moveKey: "hasKey (moveKey k k' (JObj kvs)) k"
  by (simp add: moveKey_def dom_update)


text \<open>
  C8 (as amended). Take one output rewrite with a non-empty path, applied to a fetch result
  by \<^verbatim>\<open>withFetchRewrites\<close> without an exception, and any object node \<open>l\<close> that the walk
  along \<open>path[0..n-2]\<close> reaches (descending through mappings, mapping across arrays,
  keeping at \<^verbatim>\<open>... on T\<close> the nodes whose \<^verbatim>\<open>__typename\<close> is \<open>T\<close>). Afterwards the key
  \<open>path[n-1]\<close> of the node reads \<^verbatim>\<open>undefined\<close>, the key itself is still in the node,
  and, when \<open>renameKeyTo\<close> differs from \<open>path[n-1]\<close>, the key \<open>renameKeyTo\<close> holds the
  value that was stored at \<open>path[n-1]\<close>.
\<close>

theorem withFetchRewrites_moves_key:
  assumes "withFetchRewrites fetchResult (Some [rewrite]) = Inr fetchResult'"
    and "out_path rewrite \<noteq> []"
    and "walkRewritePath (viewOf [] fetchResult) (butlast (out_path rewrite)) fetchResult = Inr obj"
    and "(l, node) \<in> set (objLeaves obj)"
  shows "lookup fetchResult' (l @ [Key (last (out_path rewrite))]) = JUndefined
    \<and> hasKey (lookup fetchResult' l) (last (out_path rewrite))
    \<and> (renameKeyTo rewrite \<noteq> last (out_path rewrite) \<longrightarrow>
         lookup fetchResult' (l @ [Key (renameKeyTo rewrite)])
           = lookup fetchResult (l @ [Key (last (out_path rewrite))]))"
proof -
  define k where "k = last (out_path rewrite)"
  define k' where "k' = renameKeyTo rewrite"
  have inv0: "viewInv fetchResult (objLeaves (viewOf [] fetchResult))"
    using viewOf_inv(1)[of fetchResult "[]" fetchResult] by simp
  from walkRewritePath_inv[OF inv0 assms(3)] have inv: "viewInv fetchResult (objLeaves obj)" .
  from assms(4) have tv: "truthyView obj" using objLeaves_falsy by fastforce
  have tr: "truthy fetchResult"
  proof (rule ccontr)
    assume f: "\<not> truthy fetchResult"
    then have "\<not> truthyView (viewOf [] fetchResult)" by (cases fetchResult) auto
    with assms(3) have "obj = viewOf [] fetchResult" by (cases "butlast (out_path rewrite)") auto
    with tv f show False by (cases fetchResult) auto
  qed
  from assms(1) tr have "applyRewrite rewrite fetchResult = Inr fetchResult'"
    by (simp add: withFetchRewrites_def split: sum.splits)
  with assms(2,3) tv obtain r where
    "applyOrMapRecursive obj (renameAt k k') fetchResult = Inr (r, fetchResult')"
    by (auto simp: applyRewrite_def k_def k'_def Let_def split: sum.splits)
  from rename_fold(1)[OF this]
  have f': "fetchResult' = fold (modify (moveKey k k')) (map fst (objLeaves obj)) fetchResult" .
  from inv assms(4) obtain kvs where node: "lookup fetchResult l = node" "node = JObj kvs"
    by (auto simp: viewInv_def)
  have "lookup fetchResult' l = moveKey k k' (lookup fetchResult l)"
    unfolding f'
  proof (rule lookup_fold_antichain)
    show "antichain (map fst (objLeaves obj))" using inv by (simp add: viewInv_def)
    show "l \<in> set (map fst (objLeaves obj))" using assms(4) by force
    show "lookup fetchResult l \<noteq> JUndefined" using node by simp
  qed
  with node have l': "lookup fetchResult' l = moveKey k k' (JObj kvs)" by simp
  have "lookup fetchResult' (l @ [Key k]) = JUndefined"
    by (simp only: lookup_append l' getKey_moveKey) simp
  moreover have "hasKey (lookup fetchResult' l) k"
    by (simp only: l' hasKey_moveKey)
  moreover have "k' \<noteq> k \<longrightarrow> lookup fetchResult' (l @ [Key k']) = lookup fetchResult (l @ [Key k])"
    using node by (simp add: lookup_append l' getKey_moveKey del: lookup.simps(2)) (simp)
  ultimately show ?thesis unfolding k_def k'_def by blast
qed

theorem withFetchRewrites_moves_key_witness:
  "lookup (JObj [(''me'', JObj [(''__typename'', JStr ''User''), (''username'', JUndefined),
                                 (''login'', JStr ''ada'')])]) ([Key ''me''] @ [Key ''username'']) = JUndefined
   \<and> hasKey (lookup (JObj [(''me'', JObj [(''__typename'', JStr ''User''), (''username'', JUndefined),
                                 (''login'', JStr ''ada'')])]) [Key ''me'']) ''username''
   \<and> lookup (JObj [(''me'', JObj [(''__typename'', JStr ''User''), (''username'', JUndefined),
                                 (''login'', JStr ''ada'')])]) ([Key ''me''] @ [Key ''login''])
       = lookup (JObj [(''me'', JObj [(''__typename'', JStr ''User''), (''username'', JStr ''ada'')])])
           ([Key ''me''] @ [Key ''username''])"
proof -
  let ?t = "JObj [(''me'', JObj [(''__typename'', JStr ''User''), (''username'', JStr ''ada'')])]"
  let ?t' = "JObj [(''me'', JObj [(''__typename'', JStr ''User''), (''username'', JUndefined),
                                  (''login'', JStr ''ada'')])]"
  let ?rw = "\<lparr>out_path = [''me'', ''... on User'', ''username''], renameKeyTo = ''login''\<rparr>"
  let ?node = "JObj [(''__typename'', JStr ''User''), (''username'', JStr ''ada'')]"
  have a: "withFetchRewrites ?t (Some [?rw]) = Inr ?t'" by code_simp
  have b: "out_path ?rw \<noteq> []" by simp
  have c: "walkRewritePath (viewOf [] ?t) (butlast (out_path ?rw)) ?t = Inr (VNode [Key ''me''] ?node)"
    by code_simp
  have d: "([Key ''me''], ?node) \<in> set (objLeaves (VNode [Key ''me''] ?node))" by simp
  from withFetchRewrites_moves_key[OF a b c d] show ?thesis by simp
qed

text \<open>
  The claim as stated fails: after renaming \<^verbatim>\<open>username\<close> to \<^verbatim>\<open>login\<close> the object still
  has the key \<^verbatim>\<open>username\<close> (holding \<^verbatim>\<open>undefined\<close>), and a rewrite that renames a key to
  itself loses the value.
\<close>

theorem withFetchRewrites_keeps_key_counterexample:
  "withFetchRewrites (JObj [(''me'', JObj [(''__typename'', JStr ''User''), (''username'', JStr ''ada'')])])
       (Some [\<lparr>out_path = [''me'', ''... on User'', ''username''], renameKeyTo = ''login''\<rparr>])
     = Inr (JObj [(''me'', JObj [(''__typename'', JStr ''User''), (''username'', JUndefined),
                                 (''login'', JStr ''ada'')])])
   \<and> hasKey (JObj [(''__typename'', JStr ''User''), (''username'', JUndefined), (''login'', JStr ''ada'')])
         ''username''
   \<and> withFetchRewrites (JObj [(''a'', JNum 1)]) (Some [\<lparr>out_path = [''a''], renameKeyTo = ''a''\<rparr>])
     = Inr (JObj [(''a'', JUndefined)])"
  by code_simp

section \<open>Properties of the entry point\<close>





text \<open>
  C5 (as amended). When the plan has been interpreted and post-processing returns (data and
  a list of errors) without throwing: if at least one error was recorded during the
  interpretation, the envelope holds the data and exactly the recorded errors, none of the
  post-processing errors; if none was recorded and post-processing gave at least one error,
  the envelope holds the data and the post-processing errors.
\<close>

theorem executeQueryPlan_error_policy:
  assumes "executeNode context node (Some rootCursor) emptyState = Inr st"
    and "computeResponse (fullResult st) = Inr (d, postProcessingErrors)"
  shows "(errors st \<noteq> [] \<longrightarrow>
           executeQueryPlan (Some node) context computeResponse
             = Inr \<lparr>res_data = Some d, res_errors = Some (errors st)\<rparr>)
       \<and> (errors st = [] \<and> postProcessingErrors \<noteq> [] \<longrightarrow>
           executeQueryPlan (Some node) context computeResponse
             = Inr \<lparr>res_data = Some d, res_errors = Some (map GraphQLErr postProcessingErrors)\<rparr>)"
  using assms by (simp add: executeQueryPlan_def postProcessing_def)

theorem executeQueryPlan_error_policy_witness:
  "executeQueryPlan (Some (Fetch missingFetch)) (gateway (usersService []) noDataService)
       (shapeWith [shapingError])
     = Inr \<lparr>res_data = Some (JObj []),
            res_errors = Some [Error ''Couldn't find service with name Z'']\<rparr>
   \<and> executeQueryPlan (Some (Fetch usersFetch)) (gateway (usersService []) noDataService)
       (shapeWith [shapingError])
     = Inr \<lparr>res_data = Some (JObj [(''users'', JArr [])]),
            res_errors = Some [GraphQLErr shapingError]\<rparr>"
proof -
  let ?g = "gateway (usersService []) noDataService"
  let ?st1 = "\<lparr>fullResult = JObj [], errors = [Error ''Couldn't find service with name Z''], sent = []\<rparr>"
  let ?st2 = "\<lparr>fullResult = JObj [(''users'', JArr [])], errors = [],
               sent = [(''A'', \<lparr>query = operation usersFetch, variables = [], req_operationName = None\<rparr>)]\<rparr>"
  have a1: "executeNode ?g (Fetch missingFetch) (Some rootCursor) emptyState = Inr ?st1"
    by code_simp
  have b1: "shapeWith [shapingError] (fullResult ?st1) = Inr (JObj [], [shapingError])"
    by (simp add: shapeWith_def)
  have a2: "executeNode ?g (Fetch usersFetch) (Some rootCursor) emptyState = Inr ?st2"
    by code_simp
  have b2: "shapeWith [shapingError] (fullResult ?st2) = Inr (JObj [(''users'', JArr [])], [shapingError])"
    by (simp add: shapeWith_def)
  from executeQueryPlan_error_policy[where computeResponse = "shapeWith [shapingError]", OF a1 b1]
    executeQueryPlan_error_policy[where computeResponse = "shapeWith [shapingError]", OF a2 b2]
  show ?thesis by simp
qed

text \<open>
  The claim as stated fails when post-processing throws: the fetch of an unknown service
  has recorded an error, and the envelope holds only the error that post-processing threw.
\<close>

theorem executeQueryPlan_error_policy_counterexample:
  "executeNode (gateway (usersService []) noDataService) (Fetch missingFetch) (Some rootCursor) emptyState
     = Inr \<lparr>fullResult = JObj [], errors = [Error ''Couldn't find service with name Z''], sent = []\<rparr>
   \<and> executeQueryPlan (Some (Fetch missingFetch)) (gateway (usersService []) noDataService)
       (shapeThrows (GraphQLErr shapingError))
     = Inr \<lparr>res_data = None, res_errors = Some [GraphQLErr shapingError]\<rparr>"
  by code_simp

text \<open>
  C9 (as amended). When post-processing throws, the envelope has no data and exactly one
  error entry: the exception itself when it is a GraphQL error; a new GraphQL error with
  the message of the exception when it is any other \<^verbatim>\<open>Error\<close>; a new GraphQL error
  with the generic message only when what was thrown is not an \<^verbatim>\<open>Error\<close>.
\<close>

theorem executeQueryPlan_exception_entry:
  assumes "executeNode context node (Some rootCursor) emptyState = Inr st"
    and "computeResponse (fullResult st) = Inl e"
  shows "executeQueryPlan (Some node) context computeResponse
           = Inr \<lparr>res_data = None,
                  res_errors = Some [if isGraphQLError e then e
                                     else newGraphQLError
                                            (if isError e then errorMessage e
                                             else ''Unexpected error during query plan execution'')]\<rparr>"
  using assms by (simp add: executeQueryPlan_def postProcessing_def)

theorem executeQueryPlan_exception_entry_witness:
  "executeQueryPlan (Some (Fetch usersFetch)) (gateway (usersService []) noDataService)
       (shapeThrows (Thrown (JStr ''boom'')))
     = Inr \<lparr>res_data = None,
            res_errors = Some [newGraphQLError ''Unexpected error during query plan execution'']\<rparr>"
proof -
  let ?g = "gateway (usersService []) noDataService"
  let ?st2 = "\<lparr>fullResult = JObj [(''users'', JArr [])], errors = [],
               sent = [(''A'', \<lparr>query = operation usersFetch, variables = [], req_operationName = None\<rparr>)]\<rparr>"
  have a: "executeNode ?g (Fetch usersFetch) (Some rootCursor) emptyState = Inr ?st2"
    by code_simp
  have b: "shapeThrows (Thrown (JStr ''boom'')) (fullResult ?st2) = Inl (Thrown (JStr ''boom''))"
    by (simp add: shapeThrows_def)
  from executeQueryPlan_exception_entry[where computeResponse = "shapeThrows (Thrown (JStr ''boom''))", OF a b]
  show ?thesis
    by (simp add: isGraphQLError_def isError_def)
qed

text \<open>
  The claim as stated fails: the message of a plain \<^verbatim>\<open>Error\<close>, which is not a GraphQL
  error, is used as it is.
\<close>

theorem executeQueryPlan_plain_error_counterexample:
  "\<not> isGraphQLError (Error ''boom'')
   \<and> executeQueryPlan (Some (Fetch usersFetch)) (gateway (usersService []) noDataService)
       (shapeThrows (Error ''boom''))
     = Inr \<lparr>res_data = None, res_errors = Some [newGraphQLError ''boom'']\<rparr>"
  by code_simp

section \<open>Properties of the fetch executor\<close>

lemma sendOperation_fullResult:
  "sendOperation service fetch c vars st = (r, st1) \<Longrightarrow> fullResult st1 = fullResult st"
  by (auto simp: sendOperation_def Let_def split: sum.splits option.splits)

lemma collectVariables_keeps:
  "k \<in> fst ` set acc \<Longrightarrow> k \<in> fst ` set (collectVariables usages provided acc)"
  by (induction usages provided acc rule: collectVariables.induct)
     (auto simp: dom_update split: option.splits)

lemma collectVariables_has:
  "k \<in> set usages \<Longrightarrow> getKey pv k \<noteq> JUndefined
    \<Longrightarrow> k \<in> fst ` set (collectVariables usages (Some pv) acc)"
proof (induction usages arbitrary: acc)
  case Nil then show ?case by simp
next
  case (Cons u usages)
  show ?case
  proof (cases "u = k")
    case True
    with Cons.prems(2) show ?thesis
      by (simp add: collectVariables_keeps dom_update)
  next
    case False
    with Cons show ?thesis by simp
  qed
qed

text \<open>
  C7 (as amended). For a fetch with \<^verbatim>\<open>requires\<close> that declares the variable
  \<^verbatim>\<open>representations\<close>, when the client supplies a value for it: no operation is sent
  to a subgraph for that fetch; and when the service is known and at least one
  representation has been built, the fetch throws the error about the key
  \<^verbatim>\<open>representations\<close> and leaves the state as it was.
\<close>

theorem executeFetch_representations_variable:
  assumes "requires fetch = Some req"
    and "variableUsages fetch = Some usages"
    and "''representations'' \<in> set usages"
    and "providedVariables context = Some pv"
    and "getKey pv ''representations'' \<noteq> JUndefined"
  shows "sent (snd (executeFetch context fetch currentCursor st)) = sent st
       \<and> (\<forall>service representations representationToEntity.
             map_of (serviceMap context) (serviceName fetch) = Some service
             \<and> buildRepresentations (supergraphSchema context) (fullResult st) req (inputRewrites fetch) 0
                   (collectEntities (fullResult st) (cur_data currentCursor))
                 = Inr (representations, representationToEntity)
             \<and> representations \<noteq> []
             \<longrightarrow> executeFetch context fetch currentCursor st
                   = (Some (Error ''Variables cannot contain key representations''), st))"
proof -
  have v: "''representations'' \<in> fst ` set (fetchVariables context fetch)"
    using assms(2-5) by (simp add: fetchVariables_def collectVariables_has)
  have 1: "snd (executeFetch context fetch currentCursor st) = st"
    using assms(1) v
    by (simp add: executeFetch_def Let_def split: option.splits sum.splits prod.splits)
  have 2: "executeFetch context fetch currentCursor st
             = (Some (Error ''Variables cannot contain key representations''), st)"
    if "map_of (serviceMap context) (serviceName fetch) = Some service"
      and "buildRepresentations (supergraphSchema context) (fullResult st) req (inputRewrites fetch) 0
                   (collectEntities (fullResult st) (cur_data currentCursor))
                 = Inr (representations, representationToEntity)"
      and "representations \<noteq> []"
    for service representations representationToEntity
  proof -
    from that(2,3) have "collectEntities (fullResult st) (cur_data currentCursor) \<noteq> []"
      by auto
    with that assms(1) v show ?thesis
      by (simp add: executeFetch_def Let_def)
  qed
  from 1 2 show ?thesis by simp
qed

theorem executeFetch_representations_variable_witness:
  "sent (snd (executeFetch (gatewayWithVariables (usersService []) (entitiesService []))
            representationsFetch usersCursor (usersState [userWithId ''1'', userWithoutId])))
     = sent (usersState [userWithId ''1'', userWithoutId])
   \<and> executeFetch (gatewayWithVariables (usersService []) (entitiesService []))
            representationsFetch usersCursor (usersState [userWithId ''1'', userWithoutId])
     = (Some (Error ''Variables cannot contain key representations''),
        usersState [userWithId ''1'', userWithoutId])"
proof -
  let ?ctx = "gatewayWithVariables (usersService []) (entitiesService [])"
  let ?st = "usersState [userWithId ''1'', userWithoutId]"
  have h1: "requires representationsFetch = Some [Field None ''__typename'' None, Field None ''id'' None]"
    by (simp add: representationsFetch_def emailFetch_def)
  have h2: "variableUsages representationsFetch = Some [''representations'']"
    by (simp add: representationsFetch_def)
  have h3: "''representations'' \<in> set [''representations'']" by simp
  have h4: "providedVariables ?ctx = Some [(''representations'', JNum 1)]"
    by (simp add: gatewayWithVariables_def)
  have h5: "getKey [(''representations'', JNum 1)] ''representations'' \<noteq> JUndefined"
    by (simp add: getKey_def)
  have a: "map_of (serviceMap ?ctx) (serviceName representationsFetch) = Some (entitiesService [])"
    by (simp add: gatewayWithVariables_def gateway_def representationsFetch_def emailFetch_def)
  have b: "buildRepresentations (supergraphSchema ?ctx) (fullResult ?st)
             [Field None ''__typename'' None, Field None ''id'' None] (inputRewrites representationsFetch) 0
             (collectEntities (fullResult ?st) (cur_data usersCursor))
           = Inr ([userWithId ''1''], [0])"
    by code_simp
  have c: "[userWithId ''1''] \<noteq> []" by simp
  note T = executeFetch_representations_variable[OF h1 h2 h3 h4 h5, of usersCursor ?st]
  from T[THEN conjunct2, rule_format, of "entitiesService []" "[userWithId ''1'']" "[0]"] a b c
  have "executeFetch ?ctx representationsFetch usersCursor ?st
     = (Some (Error ''Variables cannot contain key representations''), ?st)" by blast
  with T show ?thesis by simp
qed

text \<open>
  The claim as stated fails: when no entity gives a representation the fetch returns
  before the check, without an error.
\<close>

theorem executeFetch_representations_variable_counterexample:
  "executeFetch (gatewayWithVariables (usersService []) (entitiesService []))
      representationsFetch usersCursor (usersState [userWithoutId, userWithoutId])
     = (None, usersState [userWithoutId, userWithoutId])"
  by code_simp

lemma getProp_truthy: "truthy d \<Longrightarrow> getProp d k = Inr (lookup d [Key k])"
  by (cases d) auto

text \<open>
  C4 (as amended). For a fetch with \<^verbatim>\<open>requires\<close> that has sent at least one
  representation and got data that are truthy: if \<^verbatim>\<open>data._entities\<close> is missing or not
  an array, the fetch fails and the error saying that an array was expected is recorded
  in \<^verbatim>\<open>context.errors\<close>; if it is an array whose length differs from the number of
  representations, the error recorded says how many elements were expected; in both cases
  the response tree is left as it was.
\<close>

theorem executeFetch_malformed_entities:
  assumes "map_of (serviceMap context) (serviceName fetch) = Some service"
    and "requires fetch = Some req"
    and "buildRepresentations (supergraphSchema context) (fullResult st) req (inputRewrites fetch) 0
             (collectEntities (fullResult st) (cur_data currentCursor))
           = Inr (representations, representationToEntity)"
    and "representations \<noteq> []"
    and "''representations'' \<notin> fst ` set (fetchVariables context fetch)"
    and "sendOperation service fetch currentCursor
             (AList.update ''representations'' (JArr representations) (fetchVariables context fetch)) st
           = (Inr dataReceived, st1)"
    and "truthy dataReceived"
  shows "(\<not> isArray (lookup dataReceived [Key ''_entities'']) \<longrightarrow>
            executeNode context (Fetch fetch) (Some currentCursor) st
              = Inr (st1\<lparr>errors := errors st1
                       @ [Error ''Expected data._entities in response to be an array'']\<rparr>))
       \<and> (isArray (lookup dataReceived [Key ''_entities''])
            \<and> length (arrayElems (lookup dataReceived [Key ''_entities''])) \<noteq> length representations \<longrightarrow>
            executeNode context (Fetch fetch) (Some currentCursor) st
              = Inr (st1\<lparr>errors := errors st1
                       @ [Error (''Expected data._entities to contain ''
                                 @ showNat (length representations) @ '' elements'')]\<rparr>))
       \<and> fullResult st1 = fullResult st"
proof -
  from assms(3,4) have ne: "collectEntities (fullResult st) (cur_data currentCursor) \<noteq> []"
    by auto
  have ta: "isArray v \<Longrightarrow> truthy v" for v by (cases v) (auto simp: isArray_def)
  have 1: "executeFetch context fetch currentCursor st
             = (Some (Error ''Expected data._entities in response to be an array''), st1)"
    if "\<not> isArray (lookup dataReceived [Key ''_entities''])"
    using that assms ne by (simp add: executeFetch_def Let_def getProp_truthy)
  have 2: "executeFetch context fetch currentCursor st
             = (Some (Error (''Expected data._entities to contain ''
                                 @ showNat (length representations) @ '' elements'')), st1)"
    if "isArray (lookup dataReceived [Key ''_entities''])"
      "length (arrayElems (lookup dataReceived [Key ''_entities''])) \<noteq> length representations"
    using that assms ne ta[OF that(1)] by (simp add: executeFetch_def Let_def getProp_truthy)
  from 1 2 sendOperation_fullResult[OF assms(6)] show ?thesis by simp
qed

theorem executeFetch_malformed_entities_witness:
  "executeNode (gateway (usersService []) (usersService [])) (Fetch emailFetch) (Some usersCursor)
       (usersState [userWithId ''1'', userWithoutId])
     = Inr \<lparr>fullResult = JObj [(''users'', JArr [userWithId ''1'', userWithoutId])],
            errors = [Error ''Expected data._entities in response to be an array''],
            sent = [emailRequest [userWithId ''1'']]\<rparr>
   \<and> executeNode (gateway (usersService []) (entitiesService [emailOf ''a@x'', emailOf ''b@x'']))
       (Fetch emailFetch) (Some usersCursor) (usersState [userWithId ''1'', userWithoutId])
     = Inr \<lparr>fullResult = JObj [(''users'', JArr [userWithId ''1'', userWithoutId])],
            errors = [Error ''Expected data._entities to contain 1 elements''],
            sent = [emailRequest [userWithId ''1'']]\<rparr>"
proof -
  let ?st = "usersState [userWithId ''1'', userWithoutId]"
  let ?st1 = "?st\<lparr>sent := [emailRequest [userWithId ''1'']]\<rparr>"
  let ?req = "[Field None ''__typename'' None, Field None ''id'' None]"
  have h2: "requires emailFetch = Some ?req" by (simp add: emailFetch_def)
  have h4: "[userWithId ''1''] \<noteq> []" by simp
  have sn: "showNat (length [userWithId ''1'']) = ''1''" by code_simp
  have 1: "executeNode (gateway (usersService []) (usersService [])) (Fetch emailFetch) (Some usersCursor) ?st
     = Inr (?st1\<lparr>errors := errors ?st1 @ [Error ''Expected data._entities in response to be an array'']\<rparr>)"
  proof -
    let ?ctx = "gateway (usersService []) (usersService [])"
    let ?d = "JObj [(''users'', JArr [])]"
    have h1: "map_of (serviceMap ?ctx) (serviceName emailFetch) = Some (usersService [])"
      by (simp add: gateway_def emailFetch_def)
    have h3: "buildRepresentations (supergraphSchema ?ctx) (fullResult ?st) ?req (inputRewrites emailFetch) 0
               (collectEntities (fullResult ?st) (cur_data usersCursor)) = Inr ([userWithId ''1''], [0])"
      by code_simp
    have h5: "''representations'' \<notin> fst ` set (fetchVariables ?ctx emailFetch)"
      by (simp add: fetchVariables_def emailFetch_def)
    have h6: "sendOperation (usersService []) emailFetch usersCursor
                (AList.update ''representations'' (JArr [userWithId ''1'']) (fetchVariables ?ctx emailFetch)) ?st
              = (Inr ?d, ?st1)"
      by (simp add: sendOperation_def usersService_def fetchVariables_def emailFetch_def
            emailRequest_def usersState_def)
    have h7: "truthy ?d" by simp
    have n: "\<not> isArray (lookup ?d [Key ''_entities''])" by (simp add: getKey_def isArray_def)
    from executeFetch_malformed_entities[OF h1 h2 h3 h4 h5 h6 h7] n show ?thesis by blast
  qed
  have 2: "executeNode (gateway (usersService []) (entitiesService [emailOf ''a@x'', emailOf ''b@x'']))
       (Fetch emailFetch) (Some usersCursor) ?st
     = Inr (?st1\<lparr>errors := errors ?st1 @ [Error (''Expected data._entities to contain ''
                                 @ showNat (length [userWithId ''1'']) @ '' elements'')]\<rparr>)"
  proof -
    let ?ctx = "gateway (usersService []) (entitiesService [emailOf ''a@x'', emailOf ''b@x''])"
    let ?d = "JObj [(''_entities'', JArr [emailOf ''a@x'', emailOf ''b@x''])]"
    have h1: "map_of (serviceMap ?ctx) (serviceName emailFetch)
                = Some (entitiesService [emailOf ''a@x'', emailOf ''b@x''])"
      by (simp add: gateway_def emailFetch_def)
    have h3: "buildRepresentations (supergraphSchema ?ctx) (fullResult ?st) ?req (inputRewrites emailFetch) 0
               (collectEntities (fullResult ?st) (cur_data usersCursor)) = Inr ([userWithId ''1''], [0])"
      by code_simp
    have h5: "''representations'' \<notin> fst ` set (fetchVariables ?ctx emailFetch)"
      by (simp add: fetchVariables_def emailFetch_def)
    have h6: "sendOperation (entitiesService [emailOf ''a@x'', emailOf ''b@x'']) emailFetch usersCursor
                (AList.update ''representations'' (JArr [userWithId ''1'']) (fetchVariables ?ctx emailFetch)) ?st
              = (Inr ?d, ?st1)"
      by (simp add: sendOperation_def entitiesService_def fetchVariables_def emailFetch_def
            emailRequest_def usersState_def)
    have h7: "truthy ?d" by simp
    have n: "isArray (lookup ?d [Key ''_entities''])
            \<and> length (arrayElems (lookup ?d [Key ''_entities''])) \<noteq> length [userWithId ''1'']"
      by (simp add: getKey_def isArray_def arrayElems_def)
    from executeFetch_malformed_entities[OF h1 h2 h3 h4 h5 h6 h7] n show ?thesis by blast
  qed
  from 1 2 sn show ?thesis by (simp add: usersState_def)
qed

text \<open>
  The claim as stated fails: when the response has no data (\<^verbatim>\<open>null\<close>), so that
  \<^verbatim>\<open>data._entities\<close> is missing, the fetch returns without an error.
\<close>

theorem executeFetch_no_data_counterexample:
  "executeNode (gateway (usersService []) noDataService) (Fetch emailFetch) (Some usersCursor)
       (usersState [userWithId ''1'', userWithoutId])
     = Inr \<lparr>fullResult = JObj [(''users'', JArr [userWithId ''1'', userWithoutId])],
            errors = [],
            sent = [emailRequest [userWithId ''1'']]\<rparr>"
  by code_simp

section \<open>The merge of the entities\<close>

lemma applyMerges_simps [simp]:
  "applyMerges [] t = t"
  "applyMerges ((l, src) # ms) t = applyMerges ms (modify (\<lambda>x. deepMerge x src) l t)"
  by (simp_all add: applyMerges_def)

lemma applyMerges_append: "applyMerges (xs @ ys) t = applyMerges ys (applyMerges xs t)"
  by (simp add: applyMerges_def)



lemma antichain_nth:
  "antichain xs = (\<forall>i j. i < length xs \<and> j < length xs \<and> i \<noteq> j \<longrightarrow> \<not> prefix (xs ! i) (xs ! j))"
proof (induction xs)
  case Nil then show ?case by simp
next
  case (Cons x xs)
  show ?case
  proof
    assume a: "antichain (x # xs)"
    show "\<forall>i j. i < length (x # xs) \<and> j < length (x # xs) \<and> i \<noteq> j \<longrightarrow> \<not> prefix ((x # xs) ! i) ((x # xs) ! j)"
    proof (intro allI impI)
      fix i j assume h: "i < length (x # xs) \<and> j < length (x # xs) \<and> i \<noteq> j"
      show "\<not> prefix ((x # xs) ! i) ((x # xs) ! j)"
      proof (cases i)
        case 0
        with h obtain j' where "j = Suc j'" "j' < length xs" by (cases j) auto
        with a 0 show ?thesis by auto
      next
        case (Suc i')
        show ?thesis
        proof (cases j)
          case 0
          with a Suc h show ?thesis by auto
        next
          case (Suc j')
          with a \<open>i = Suc i'\<close> h Cons.IH show ?thesis by auto
        qed
      qed
    qed
  next
    assume r: "\<forall>i j. i < length (x # xs) \<and> j < length (x # xs) \<and> i \<noteq> j \<longrightarrow> \<not> prefix ((x # xs) ! i) ((x # xs) ! j)"
    have "antichain xs"
      unfolding Cons.IH
    proof (intro allI impI)
      fix i j assume "i < length xs \<and> j < length xs \<and> i \<noteq> j"
      with r[rule_format, of "Suc i" "Suc j"] show "\<not> prefix (xs ! i) (xs ! j)" by simp
    qed
    moreover have "\<forall>m \<in> set xs. \<not> prefix x m \<and> \<not> prefix m x"
    proof
      fix m assume "m \<in> set xs"
      then obtain k where k: "k < length xs" "xs ! k = m" by (auto simp: in_set_conv_nth)
      with r[rule_format, of 0 "Suc k"] r[rule_format, of "Suc k" 0]
      show "\<not> prefix x m \<and> \<not> prefix m x" by simp
    qed
    ultimately show "antichain (x # xs)" by simp
  qed
qed










section \<open>Entities that are dropped\<close>

lemma buildRepresentations_viable:
  "buildRepresentations schema tree req rw index ents = Inr (reps, rte) \<Longrightarrow> list_all viable reps"
proof (induction ents arbitrary: index reps rte)
  case Nil then show ?case by simp
next
  case (Cons e ents)
  then show ?case by (auto split: sum.splits prod.splits if_splits)
qed

text \<open>
  C6. The code at the failing input: two users are collected, the second lacks the required
  \<^verbatim>\<open>id\<close>; one representation is sent and one entity comes back and is merged. The fetch
  has an output rewrite, and the merge loop, which runs over all collected entities, then
  reads \<^verbatim>\<open>__typename\<close> of the representation that was never built: a \<^verbatim>\<open>TypeError\<close>
  is recorded for the entity that was dropped.
\<close>

theorem dropped_entity_records_error:
  "executeNode (gateway (usersService [userWithId ''1'', userWithoutId]) (entitiesService [emailOf ''a@x'']))
       (usersPlan renamingFetch) (Some rootCursor) emptyState
     = Inr \<lparr>fullResult = JObj [(''users'',
                JArr [JObj [(''__typename'', JStr ''User''), (''id'', JStr ''1''), (''email'', JStr ''a@x'')],
                      userWithoutId])],
            errors = [TypeError ''Cannot read properties of undefined (reading __typename)''],
            sent = [(''A'', \<lparr>query = operation usersFetch, variables = [], req_operationName = None\<rparr>),
                    emailRequest [userWithId ''1'']]\<rparr>"
  by code_simp

text \<open>
  What the error-path generator gives for the path \<open>[p0, i, ...rest]\<close> of a subgraph error,
  in a fetch with \<^verbatim>\<open>requires\<close>, when \<open>i\<close> is an index of the hydrated paths.
\<close>

lemma makeLazyErrorPathGenerator_entity_index:
  assumes "req \<noteq> None"
    and "generateHydratedPaths [] cursorPath tree = Inr hydratedPaths"
    and "i < length hydratedPaths"
  shows "makeLazyErrorPathGenerator req cursorPath tree (Some (p0 # PNum (int i) # rest))
           = Inr (Some (hydratedPaths ! i @ rest))"
  using assms by (simp add: makeLazyErrorPathGenerator_def)

text \<open>
  C3. The code at the failing input: the first of two users lacks the required \<^verbatim>\<open>id\<close>,
  so the only representation sent (index 0) comes from \<^verbatim>\<open>users[1]\<close>. The subgraph
  reports an error at \<^verbatim>\<open>_entities, 0, email\<close>; the path recorded is
  \<^verbatim>\<open>users, 0, email\<close>, the path of the user that was not sent.
\<close>

theorem error_path_of_dropped_entity:
  "buildRepresentations (supergraphSchema (gateway (usersService []) (failingService [boom])))
       (fullResult (usersState [userWithoutId, userWithId ''2'']))
       [Field None ''__typename'' None, Field None ''id'' None] None 0
       (collectEntities (fullResult (usersState [userWithoutId, userWithId ''2''])) (cur_data usersCursor))
     = Inr ([userWithId ''2''], [1])
   \<and> executeNode (gateway (usersService [userWithoutId, userWithId ''2'']) (failingService [boom]))
       (usersPlan emailFetch) (Some rootCursor) emptyState
     = Inr \<lparr>fullResult = JObj [(''users'', JArr [userWithoutId, userWithId ''2''])],
            errors = [GraphQLErr \<lparr>message = ''boom'',
                        err_path = Some [PStr ''users'', PNum 0, PStr ''email''],
                        extensions = [(''serviceName'', JStr ''B''),
                                      (''code'', JStr ''DOWNSTREAM_SERVICE_ERROR'')]\<rparr>],
            sent = [(''A'', \<lparr>query = operation usersFetch, variables = [], req_operationName = None\<rparr>),
                    emailRequest [userWithId ''2'']]\<rparr>"
  by code_simp

section \<open>The cursors of the interpreter\<close>

text \<open>
  The theorem about the merge of entities takes the collected entities to be nodes none of
  which lies inside another. That holds of every cursor the interpreter builds: it holds
  of the root cursor, \<^verbatim>\<open>moveIntoCursor\<close> keeps it, and then it holds of the entities
  collected from the cursor, whatever the tree is.
\<close>

lemma antichain_elemLocs: "antichain (elemLocs tree l)"
  unfolding antichain_nth by (auto simp: elemLocs_def)

lemma elemLocs_prefix: "x \<in> set (elemLocs tree l) \<Longrightarrow> prefix l x"
  by (auto simp: elemLocs_def)

lemma antichain_filter: "antichain ls \<Longrightarrow> antichain (filter P ls)"
  by (induction ls) auto

lemma antichain_extend:
  assumes "antichain xs" "antichain ys"
    and "\<forall>x \<in> set xs. prefix e x" "\<forall>y \<in> set ys. \<exists>y0 \<in> set es. prefix y0 y"
    and "\<forall>m \<in> set es. \<not> prefix e m \<and> \<not> prefix m e"
  shows "antichain (xs @ ys)"
  unfolding antichain_append
proof (intro conjI ballI)
  show "antichain xs" "antichain ys" using assms(1,2) by auto
next
  fix x y assume x: "x \<in> set xs" and y: "y \<in> set ys"
  from assms(4) y obtain y0 where y0: "y0 \<in> set es" "prefix y0 y" by blast
  from assms(3) x have px: "prefix e x" by blast
  from assms(5) y0 have "\<not> prefix e y0" "\<not> prefix y0 e" by auto
  with px y0(2) have "\<not> prefix x y \<and> \<not> prefix y x" using diverge by blast
  then show "\<not> prefix x y" "\<not> prefix y x" by auto
qed

lemma flatten_antichain:
  "flattenResultsAtPath tree d p = Inr d' \<Longrightarrow> antichain (cursorLocs d)
     \<Longrightarrow> antichain (cursorLocs d') \<and> (\<forall>x \<in> set (cursorLocs d'). \<exists>y \<in> set (cursorLocs d). prefix y x)"
  "flatMapElems tree es rest = Inr ls \<Longrightarrow> antichain es
     \<Longrightarrow> antichain ls \<and> (\<forall>x \<in> set ls. \<exists>y \<in> set es. prefix y x)"
proof (induction tree d p and tree es rest arbitrary: d' and ls
    rule: flattenResultsAtPath_flatMapElems.induct)
  case (1 tree "value")
  then show ?case by auto
next
  case (2 tree "value" current rest)
  show ?case
  proof (cases "dataNullish tree value")
    case True
    with "2.prems" show ?thesis by auto
  next
    case nn: False
    show ?thesis
    proof (cases "current = PStr ''@''")
      case True
      with nn "2.prems"(1) obtain ls where arr: "dataIsArray tree value"
        and fm: "flatMapElems tree (dataElems tree value) rest = Inr ls" and d': "d' = Many ls"
        by (auto split: if_splits sum.splits)
      have ac: "antichain (dataElems tree value)"
        using "2.prems"(2) by (cases "value") (auto simp: cursorLocs_def antichain_elemLocs)
      have ext: "\<forall>y \<in> set (dataElems tree value). \<exists>z \<in> set (cursorLocs value). prefix z y"
        by (cases "value") (auto simp: cursorLocs_def elemLocs_prefix)
      from "2.IH"(1)[OF nn True arr fm ac] have
        "antichain ls" "\<forall>x \<in> set ls. \<exists>y \<in> set (dataElems tree value). prefix y x" by auto
      with ext d' show ?thesis
        by (auto simp: cursorLocs_def) (meson prefix_order.trans)
    next
      case False
      with nn "2.prems"(1) obtain k l where c: "current = PStr k" and v: "value = Single l"
        and na: "\<not> isArray (lookup tree l)"
        and r: "flattenResultsAtPath tree (Single (l @ [Key k])) rest = Inr d'"
        by (auto split: if_splits sum.splits pathElem.splits cursorData.splits)
      have "antichain (cursorLocs (Single (l @ [Key k])))" by (simp add: cursorLocs_def)
      from "2.IH"(2)[OF nn False c v na r this] v show ?thesis
        by (auto simp: cursorLocs_def dest: append_prefixD)
    qed
  qed
next
  case (3 tree rest)
  then show ?case by auto
next
  case (4 tree element elements rest)
  from "4.prems"(1) obtain r rs where
    a: "flattenResultsAtPath tree (Single element) rest = Inr r"
    and b: "flatMapElems tree elements rest = Inr rs"
    and ls: "ls = (case r of Many ls \<Rightarrow> ls
                     | Single l \<Rightarrow> if isArray (lookup tree l) then elemLocs tree l else [l]) @ rs"
    by (auto split: sum.splits)
  let ?xs = "(case r of Many ls \<Rightarrow> ls
                     | Single l \<Rightarrow> if isArray (lookup tree l) then elemLocs tree l else [l])"
  have "antichain (cursorLocs (Single element))" by (simp add: cursorLocs_def)
  from "4.IH"(1)[OF a this] have r1: "antichain (cursorLocs r)"
    "\<forall>x \<in> set (cursorLocs r). prefix element x" by (auto simp: cursorLocs_def)
  have xs1: "antichain ?xs" using r1(1) by (cases r) (auto simp: cursorLocs_def antichain_elemLocs)
  have xs2: "\<forall>x \<in> set ?xs. prefix element x"
    using r1(2) by (cases r) (auto simp: cursorLocs_def dest!: elemLocs_prefix intro: prefix_order.trans)
  from "4.prems"(2) have tl: "antichain elements"
    and sep: "\<forall>m \<in> set elements. \<not> prefix element m \<and> \<not> prefix m element" by auto
  from "4.IH"(2)[OF a b tl] have rs1: "antichain rs" "\<forall>x \<in> set rs. \<exists>y \<in> set elements. prefix y x"
    by auto
  have "antichain (?xs @ rs)" using antichain_extend[OF xs1 rs1(1) xs2 rs1(2) sep] .
  moreover have "\<forall>x \<in> set (?xs @ rs). \<exists>y \<in> set (element # elements). prefix y x"
    using xs2 rs1(2) by auto
  ultimately show ?case unfolding ls by blast
qed

lemma moveIntoCursor_antichain:
  "moveIntoCursor tree cursor p = Inr (Some cursor') \<Longrightarrow> antichain (cursorLocs (cur_data cursor))
     \<Longrightarrow> antichain (cursorLocs (cur_data cursor'))"
  using flatten_antichain(1)
  by (auto simp: moveIntoCursor_def split: sum.splits if_splits)

lemma collectEntities_antichain:
  "antichain (cursorLocs d) \<Longrightarrow> antichain (collectEntities tree d)"
  by (cases d) (auto simp: collectEntities_def cursorLocs_def antichain_filter antichain_elemLocs)

lemma rootCursor_antichain: "antichain (cursorLocs (cur_data rootCursor))"
  by (simp add: rootCursor_def cursorLocs_def)

lemma usersCursor_flatten:
  "moveIntoCursor (fullResult (usersState [userWithId ''1'', userWithoutId])) rootCursor
       [PStr ''users'', PStr ''@'']
     = Inr (Some usersCursor)"
  by code_simp

end
